theory Spec2Isabelle
  imports Complex_Main
begin

section \<open>Constants of community\_research\_mcp.py\<close>

text \<open>
  The module-level constants, as the source declares them. Clock readings
  (\<^verbatim>\<open>time.time()\<close>) are modelled as real numbers of seconds; every function
  that reads the clock takes the reading as an argument, so that two reads in
  one call may differ.
\<close>

definition CHARACTER_LIMIT :: nat where
  "CHARACTER_LIMIT = 25000"

definition MAX_RETRIES :: nat where
  "MAX_RETRIES = 3"

definition CACHE_TTL_SECONDS :: real where
  "CACHE_TTL_SECONDS = 3600"

definition RATE_LIMIT_WINDOW :: real where
  "RATE_LIMIT_WINDOW = 60"

definition RATE_LIMIT_MAX_CALLS :: nat where
  "RATE_LIMIT_MAX_CALLS = 10"

section \<open>Python strings\<close>

text \<open>
  A Python \<^verbatim>\<open>str\<close> is modelled as a \<^typ>\<open>string\<close> in which one
  \<^typ>\<open>char\<close> is one code point, so the model covers the strings over the
  code points below 256 and \<^const>\<open>length\<close> is Python's \<^verbatim>\<open>len\<close>.
  \<^verbatim>\<open>str.isspace\<close>, \<^verbatim>\<open>str.lower\<close>, \<^verbatim>\<open>str.strip\<close> and
  \<^verbatim>\<open>str.split\<close> (both without arguments) and the substring test
  \<^verbatim>\<open>t in s\<close> follow CPython on that range.
\<close>

definition py_isspace :: "char \<Rightarrow> bool" where
  "py_isspace c = (c \<in> set [CHR 0x09, CHR 0x0A, CHR 0x0B, CHR 0x0C, CHR 0x0D,
                              CHR 0x1C, CHR 0x1D, CHR 0x1E, CHR 0x1F, CHR 0x20,
                              CHR 0x85, CHR 0xA0])"

definition upper_chars :: string where
  "upper_chars = ''ABCDEFGHIJKLMNOPQRSTUVWXYZ'' @
     [CHR 0xC0, CHR 0xC1, CHR 0xC2, CHR 0xC3, CHR 0xC4, CHR 0xC5, CHR 0xC6, CHR 0xC7,
      CHR 0xC8, CHR 0xC9, CHR 0xCA, CHR 0xCB, CHR 0xCC, CHR 0xCD, CHR 0xCE, CHR 0xCF,
      CHR 0xD0, CHR 0xD1, CHR 0xD2, CHR 0xD3, CHR 0xD4, CHR 0xD5, CHR 0xD6,
      CHR 0xD8, CHR 0xD9, CHR 0xDA, CHR 0xDB, CHR 0xDC, CHR 0xDD, CHR 0xDE]"

definition lower_chars :: string where
  "lower_chars = ''abcdefghijklmnopqrstuvwxyz'' @
     [CHR 0xE0, CHR 0xE1, CHR 0xE2, CHR 0xE3, CHR 0xE4, CHR 0xE5, CHR 0xE6, CHR 0xE7,
      CHR 0xE8, CHR 0xE9, CHR 0xEA, CHR 0xEB, CHR 0xEC, CHR 0xED, CHR 0xEE, CHR 0xEF,
      CHR 0xF0, CHR 0xF1, CHR 0xF2, CHR 0xF3, CHR 0xF4, CHR 0xF5, CHR 0xF6,
      CHR 0xF8, CHR 0xF9, CHR 0xFA, CHR 0xFB, CHR 0xFC, CHR 0xFD, CHR 0xFE]"

definition py_lower_char :: "char \<Rightarrow> char" where
  "py_lower_char c = (case map_of (zip upper_chars lower_chars) c of None \<Rightarrow> c | Some l \<Rightarrow> l)"

definition py_lower :: "string \<Rightarrow> string" where
  "py_lower s = map py_lower_char s"

definition py_strip :: "string \<Rightarrow> string" where
  "py_strip s = rev (dropWhile py_isspace (rev (dropWhile py_isspace s)))"

text \<open>
  \<^verbatim>\<open>s.split()\<close>: the maximal runs of non-whitespace characters, in order.
  The first argument is the word being read.
\<close>

fun split_ws :: "string \<Rightarrow> string \<Rightarrow> string list" where
  "split_ws cur [] = (if cur = [] then [] else [cur])"
| "split_ws cur (c # cs) =
     (if py_isspace c
      then (if cur = [] then split_ws [] cs else cur # split_ws [] cs)
      else split_ws (cur @ [c]) cs)"

definition py_split :: "string \<Rightarrow> string list" where
  "py_split s = split_ws [] s"

fun starts_with :: "string \<Rightarrow> string \<Rightarrow> bool" where
  "starts_with [] s = True"
| "starts_with (t # ts) [] = False"
| "starts_with (t # ts) (c # cs) = (t = c \<and> starts_with ts cs)"

text \<open>\<^verbatim>\<open>t in s\<close> on two strings: \<open>t\<close> occurs in \<open>s\<close> as a contiguous run.\<close>

fun py_in_str :: "string \<Rightarrow> string \<Rightarrow> bool" where
  "py_in_str t [] = (t = [])"
| "py_in_str t (c # cs) = (starts_with t (c # cs) \<or> py_in_str t cs)"

text \<open>\<^verbatim>\<open>str(n)\<close> for a non-negative integer: its decimal digits.\<close>

fun dec :: "nat \<Rightarrow> string" where
  "dec n = (if n < 10 then [''0123456789'' ! n]
            else dec (n div 10) @ [''0123456789'' ! (n mod 10)])"

declare dec.simps [simp del]

text \<open>\<^verbatim>\<open>"\n".join(lines)\<close> on a list of strings.\<close>

fun join_lines :: "string list \<Rightarrow> string" where
  "join_lines [] = []"
| "join_lines [l] = l"
| "join_lines (l # m # ls) = l @ [CHR 0x0A] @ join_lines (m # ls)"

section \<open>Input validation\<close>

text \<open>
  \<^verbatim>\<open>CommunitySearchInput.validate_topic_specificity\<close>: raising
  \<^verbatim>\<open>ValueError(msg)\<close> is the result \<open>Inl msg\<close>, returning \<open>v\<close> is \<open>Inr v\<close>.
\<close>

definition vague_terms :: "string list" where
  "vague_terms =
     [''settings'', ''configuration'', ''config'', ''setup'', ''performance'',
      ''optimization'', ''best practices'', ''how to'', ''tutorial'',
      ''getting started'', ''basics'', ''help'', ''issue'', ''problem'',
      ''error'', ''debugging'', ''install'', ''installation'']"

definition too_vague_message :: "string \<Rightarrow> string" where
  "too_vague_message v =
     ''Topic '' @ [CHR 0x27] @ v @ [CHR 0x27] @ '' is too vague. Be more specific! '' @
     ''Instead of 'settings', say 'GUI settings dialog with tabs and save/load buttons'. '' @
     ''Instead of 'performance', say 'reduce Docker image size with multi-stage builds'. '' @
     ''Include specific technologies, libraries, or patterns you're interested in.''"

definition validate_topic_specificity :: "string \<Rightarrow> string + string" where
  "validate_topic_specificity v0 =
     (let v = py_strip v0;
          words = py_split (py_lower v)
      in if length words \<le> 2 \<and> list_ex (\<lambda>term. py_in_str term (py_lower v)) vague_terms
         then Inl (too_vague_message v)
         else Inr v)"

text \<open>
  The policy in the specification's words, for comparison with the code: the
  trimmed topic has at most two words and at least one of its words is a term
  of the vagueness list.
\<close>

definition spec_topic_rejected :: "string \<Rightarrow> bool" where
  "spec_topic_rejected v0 =
     (let words = py_split (py_lower (py_strip v0))
      in length words \<le> 2 \<and> list_ex (\<lambda>w. w \<in> set vague_terms) words)"

section \<open>Caching and rate limiting\<close>

text \<open>
  The two module-level dictionaries \<^verbatim>\<open>_cache\<close> and
  \<^verbatim>\<open>_rate_limit_tracker\<close>. A cache entry is the dictionary
  \<^verbatim>\<open>{'result': ..., 'timestamp': ...}\<close>.
\<close>

record cache_entry =
  result :: string
  timestamp :: real

type_synonym cache = "string \<rightharpoonup> cache_entry"

type_synonym rate_limit_tracker = "string \<rightharpoonup> real list"

text \<open>
  \<^verbatim>\<open>get_cached_result(cache_key)\<close>: the entry's result while
  \<^verbatim>\<open>time.time() - cached['timestamp'] < CACHE_TTL_SECONDS\<close>; otherwise the
  entry is deleted and None is returned. The cache after the call is returned
  with the answer.
\<close>

definition get_cached_result :: "real \<Rightarrow> string \<Rightarrow> cache \<Rightarrow> string option \<times> cache" where
  "get_cached_result now cache_key c =
     (case c cache_key of
        None \<Rightarrow> (None, c)
      | Some cached \<Rightarrow>
          if now - timestamp cached < CACHE_TTL_SECONDS
          then (Some (result cached), c)
          else (None, c(cache_key := None)))"

definition set_cached_result :: "real \<Rightarrow> string \<Rightarrow> string \<Rightarrow> cache \<Rightarrow> cache" where
  "set_cached_result now cache_key res c =
     c(cache_key \<mapsto> \<lparr>result = res, timestamp = now\<rparr>)"

text \<open>
  \<^verbatim>\<open>check_rate_limit(tool_name)\<close>: a missing window is created empty, the
  window is pruned to the timestamps with \<^verbatim>\<open>now - ts < RATE_LIMIT_WINDOW\<close>
  and stored, and the call is admitted (with \<^verbatim>\<open>now\<close> appended) unless the
  pruned window already holds \<^verbatim>\<open>RATE_LIMIT_MAX_CALLS\<close> timestamps.
\<close>

definition prune :: "real \<Rightarrow> real list \<Rightarrow> real list" where
  "prune now tss = filter (\<lambda>ts. now - ts < RATE_LIMIT_WINDOW) tss"

definition window_of :: "rate_limit_tracker \<Rightarrow> string \<Rightarrow> real list" where
  "window_of tr tool_name = (case tr tool_name of None \<Rightarrow> [] | Some tss \<Rightarrow> tss)"

definition check_rate_limit :: "real \<Rightarrow> string \<Rightarrow> rate_limit_tracker \<Rightarrow> bool \<times> rate_limit_tracker" where
  "check_rate_limit now tool_name tr =
     (let kept = prune now (window_of tr tool_name) in
      if length kept \<ge> RATE_LIMIT_MAX_CALLS
      then (False, tr(tool_name \<mapsto> kept))
      else (True, tr(tool_name \<mapsto> kept @ [now])))"

text \<open>
  A run of admission checks for one operation name at the given clock
  readings, in order: the answers, and the tracker after the last call.
\<close>

fun check_rate_limit_run :: "real list \<Rightarrow> string \<Rightarrow> rate_limit_tracker \<Rightarrow> bool list \<times> rate_limit_tracker" where
  "check_rate_limit_run [] tool_name tr = ([], tr)"
| "check_rate_limit_run (now # nows) tool_name tr =
     (let (ok, tr') = check_rate_limit now tool_name tr;
          (oks, tr'') = check_rate_limit_run nows tool_name tr'
      in (ok # oks, tr''))"

text \<open>
  The clock readings of the admitted calls of a run, and the property that
  every timestamp of a list has fewer than \<^const>\<open>RATE_LIMIT_MAX_CALLS\<close>
  earlier timestamps inside its window.
\<close>

definition admitted :: "real list \<Rightarrow> bool list \<Rightarrow> real list" where
  "admitted ts oks = map fst (filter snd (zip ts oks))"

definition spaced :: "real list \<Rightarrow> bool" where
  "spaced l = (\<forall>j < length l. length (prune (l ! j) (take j l)) < RATE_LIMIT_MAX_CALLS)"

section \<open>Python values and exceptions\<close>

text \<open>
  The values that \<^verbatim>\<open>json.loads\<close> builds, and so every value a search
  backend or an LLM provider hands to the code: \<open>JObj\<close> holds the items
  of a \<^verbatim>\<open>dict\<close> in insertion order (its keys are distinct), \<open>JFloat\<close> a
  finite float.
\<close>

datatype json =
    JNull
  | JBool bool
  | JInt int
  | JFloat real
  | JStr string
  | JArr "json list"
  | JObj "(string \<times> json) list"

text \<open>
  The exceptions of a call. The first eight are raised by the operations the
  code applies to a value of the wrong shape, and carry that value;
  \<open>External\<close> is raised by a collaborator (HTTP client, provider reply
  extraction, \<^verbatim>\<open>json.loads\<close>) and carries its \<^verbatim>\<open>str(e)\<close>.
\<close>

datatype py_exn =
    AttributeError json     \<comment> \<open>\<^verbatim>\<open>v.get(...)\<close>, \<open>v\<close> not a dict\<close>
  | NotAContainer json      \<comment> \<open>TypeError of \<^verbatim>\<open>k in v\<close>\<close>
  | NotSubscriptable json   \<comment> \<open>TypeError of \<^verbatim>\<open>v[k]\<close>\<close>
  | KeyError string         \<comment> \<open>\<^verbatim>\<open>d[k]\<close>, \<open>k\<close> missing\<close>
  | NoLen json              \<comment> \<open>TypeError of \<^verbatim>\<open>len(v)\<close>\<close>
  | NotIterable json        \<comment> \<open>TypeError of iterating \<open>v\<close>\<close>
  | BadSlice json           \<comment> \<open>\<^verbatim>\<open>v[:n]\<close>, \<open>v\<close> not a sequence\<close>
  | JoinItem nat json       \<comment> \<open>TypeError of \<^verbatim>\<open>"\n".join\<close>: item \<open>i\<close> is not a str\<close>
  | External string

definition try_bind :: "py_exn + 'a \<Rightarrow> ('a \<Rightarrow> py_exn + 'b) \<Rightarrow> py_exn + 'b" where
  "try_bind m f = (case m of Inl e \<Rightarrow> Inl e | Inr x \<Rightarrow> f x)"

text \<open>Truthiness, as \<^verbatim>\<open>if v:\<close> tests it.\<close>

fun py_truthy :: "json \<Rightarrow> bool" where
  "py_truthy JNull = False"
| "py_truthy (JBool b) = b"
| "py_truthy (JInt i) = (i \<noteq> 0)"
| "py_truthy (JFloat r) = (r \<noteq> 0)"
| "py_truthy (JStr s) = (s \<noteq> [])"
| "py_truthy (JArr xs) = (xs \<noteq> [])"
| "py_truthy (JObj kvs) = (kvs \<noteq> [])"

text \<open>\<^verbatim>\<open>k in v\<close> for a string \<open>k\<close>: a key of a dict, an element of a list, a substring of a str.\<close>

fun py_contains :: "string \<Rightarrow> json \<Rightarrow> py_exn + bool" where
  "py_contains k (JObj kvs) = Inr (k \<in> set (map fst kvs))"
| "py_contains k (JArr xs) = Inr (JStr k \<in> set xs)"
| "py_contains k (JStr s) = Inr (py_in_str k s)"
| "py_contains k v = Inl (NotAContainer v)"

text \<open>\<^verbatim>\<open>v[k]\<close> for a string \<open>k\<close>.\<close>

fun py_getitem :: "json \<Rightarrow> string \<Rightarrow> py_exn + json" where
  "py_getitem (JObj kvs) k = (case map_of kvs k of None \<Rightarrow> Inl (KeyError k) | Some x \<Rightarrow> Inr x)"
| "py_getitem v k = Inl (NotSubscriptable v)"

text \<open>\<^verbatim>\<open>v.get(k, default)\<close>: only a dict has the method.\<close>

fun py_get :: "json \<Rightarrow> string \<Rightarrow> json \<Rightarrow> py_exn + json" where
  "py_get (JObj kvs) k d = Inr (case map_of kvs k of None \<Rightarrow> d | Some x \<Rightarrow> x)"
| "py_get v k d = Inl (AttributeError v)"

fun py_len :: "json \<Rightarrow> py_exn + nat" where
  "py_len (JStr s) = Inr (length s)"
| "py_len (JArr xs) = Inr (length xs)"
| "py_len (JObj kvs) = Inr (length kvs)"
| "py_len v = Inl (NoLen v)"

text \<open>Iteration: the elements of a list, the keys of a dict, the characters of a str.\<close>

fun py_iter :: "json \<Rightarrow> py_exn + json list" where
  "py_iter (JArr xs) = Inr xs"
| "py_iter (JObj kvs) = Inr (map (\<lambda>kv. JStr (fst kv)) kvs)"
| "py_iter (JStr s) = Inr (map (\<lambda>c. JStr [c]) s)"
| "py_iter v = Inl (NotIterable v)"

text \<open>\<^verbatim>\<open>v[:n]\<close>.\<close>

fun py_slice_to :: "nat \<Rightarrow> json \<Rightarrow> py_exn + json" where
  "py_slice_to n (JArr xs) = Inr (JArr (take n xs))"
| "py_slice_to n (JStr s) = Inr (JStr (take n s))"
| "py_slice_to n v = Inl (BadSlice v)"

text \<open>\<^verbatim>\<open>d[k] = x\<close> on the items of a dict: an existing key keeps its place.\<close>

fun dict_set :: "string \<Rightarrow> json \<Rightarrow> (string \<times> json) list \<Rightarrow> (string \<times> json) list" where
  "dict_set k x [] = [(k, x)]"
| "dict_set k x (kv # kvs) = (if fst kv = k then (k, x) # kvs else kv # dict_set k x kvs)"

text \<open>
  The functions of the Python runtime that the code calls and whose text is
  not part of the repository. Every theorem below holds for every runtime.
\<close>

record runtime =
  md5_hexdigest :: "string \<Rightarrow> string"      \<comment> \<open>\<^verbatim>\<open>hashlib.md5(s.encode()).hexdigest()\<close>\<close>
  json_dumps_sorted :: "json \<Rightarrow> string"    \<comment> \<open>\<^verbatim>\<open>json.dumps(v, sort_keys=True)\<close>\<close>
  json_dumps_indent :: "json \<Rightarrow> string"    \<comment> \<open>\<^verbatim>\<open>json.dumps(v, indent=2)\<close>\<close>
  str_of_value :: "json \<Rightarrow> string"         \<comment> \<open>\<^verbatim>\<open>str(v)\<close>, \<open>v\<close> not a str\<close>
  str_of_exn :: "py_exn \<Rightarrow> string"         \<comment> \<open>\<^verbatim>\<open>str(e)\<close>, \<open>e\<close> raised by the code's own operations\<close>

text \<open>How an f-string formats a value, and \<^verbatim>\<open>str(e)\<close>.\<close>

definition py_str :: "runtime \<Rightarrow> json \<Rightarrow> string" where
  "py_str R v = (case v of JStr s \<Rightarrow> s | _ \<Rightarrow> str_of_value R v)"

definition exn_str :: "runtime \<Rightarrow> py_exn \<Rightarrow> string" where
  "exn_str R e = (case e of External m \<Rightarrow> m | _ \<Rightarrow> str_of_exn R e)"

section \<open>The request\<close>

datatype ResponseFormat = MARKDOWN | JSON

record CommunitySearchInput =
  language :: string
  topic :: string
  goal :: "string option"
  current_setup :: "string option"
  response_format :: ResponseFormat

definition json_of_optional :: "string option \<Rightarrow> json" where
  "json_of_optional x = (case x of None \<Rightarrow> JNull | Some s \<Rightarrow> JStr s)"

text \<open>
  \<^verbatim>\<open>get_cache_key(tool_name, **params)\<close>; \<open>params\<close> is the dict of the
  keyword arguments.
\<close>

definition get_cache_key :: "runtime \<Rightarrow> string \<Rightarrow> (string \<times> json) list \<Rightarrow> string" where
  "get_cache_key R tool_name params =
     md5_hexdigest R (tool_name @ '':'' @ json_dumps_sorted R (JObj params))"

text \<open>The key as \<^verbatim>\<open>community_search\<close> derives it from its input.\<close>

definition community_search_cache_key :: "runtime \<Rightarrow> CommunitySearchInput \<Rightarrow> string" where
  "community_search_cache_key R p =
     get_cache_key R ''community_search''
       [(''language'', JStr (language p)),
        (''topic'', JStr (topic p)),
        (''goal'', json_of_optional (goal p)),
        (''current_setup'', json_of_optional (current_setup p))]"

section \<open>Search backends and aggregation\<close>

text \<open>
  What the HTTP exchange of one backend's coroutine does in one attempt: the
  request succeeds and \<^verbatim>\<open>response.json()\<close> is \<open>data\<close> (\<open>Responds\<close>); or
  the client, \<^verbatim>\<open>raise_for_status\<close> or \<^verbatim>\<open>response.json()\<close> raises an
  \<^verbatim>\<open>Exception\<close> (\<open>Fails\<close>: connection failure, timeout, error status,
  undecodable body); or the task is cancelled, which raises an exception that
  \<^verbatim>\<open>except Exception\<close> does not catch (\<open>Cancelled\<close>).
\<close>

datatype http_run = Responds json | Fails py_exn | Cancelled py_exn

text \<open>\<^verbatim>\<open>for item in items: results.append(f(item))\<close>.\<close>

fun each_item :: "(json \<Rightarrow> py_exn + json) \<Rightarrow> json list \<Rightarrow> py_exn + json list" where
  "each_item f [] = Inr []"
| "each_item f (item # rest) =
     try_bind (f item) (\<lambda>r. try_bind (each_item f rest) (\<lambda>rs. Inr (r # rs)))"

text \<open>The normalisation of the response in \<^verbatim>\<open>search_stackoverflow\<close>: the top 5 items.\<close>

definition stackoverflow_result :: "json \<Rightarrow> py_exn + json" where
  "stackoverflow_result item =
     try_bind (py_get item ''title'' (JStr [])) (\<lambda>title.
     try_bind (py_get item ''link'' (JStr [])) (\<lambda>link.
     try_bind (py_get item ''score'' (JInt 0)) (\<lambda>score.
     try_bind (py_get item ''answer_count'' (JInt 0)) (\<lambda>answer_count.
     try_bind (py_get item ''body'' (JStr [])) (\<lambda>body.
     try_bind (py_slice_to 500 body) (\<lambda>snippet.
       Inr (JObj [(''title'', title), (''url'', link), (''score'', score),
                  (''answer_count'', answer_count), (''snippet'', snippet)])))))))"

definition stackoverflow_results :: "json \<Rightarrow> py_exn + json list" where
  "stackoverflow_results data =
     try_bind (py_get data ''items'' (JArr [])) (\<lambda>items.
     try_bind (py_slice_to 5 items) (\<lambda>top.
     try_bind (py_iter top) (\<lambda>its. each_item stackoverflow_result its)))"

text \<open>In \<^verbatim>\<open>search_github\<close>; the snippet is \<^verbatim>\<open>(item.get('body', '') or '')[:500]\<close>.\<close>

definition github_result :: "json \<Rightarrow> py_exn + json" where
  "github_result item =
     try_bind (py_get item ''title'' (JStr [])) (\<lambda>title.
     try_bind (py_get item ''html_url'' (JStr [])) (\<lambda>html_url.
     try_bind (py_get item ''state'' (JStr [])) (\<lambda>state.
     try_bind (py_get item ''comments'' (JInt 0)) (\<lambda>comments.
     try_bind (py_get item ''body'' (JStr [])) (\<lambda>body.
     try_bind (py_slice_to 500 (if py_truthy body then body else JStr [])) (\<lambda>snippet.
       Inr (JObj [(''title'', title), (''url'', html_url), (''state'', state),
                  (''comments'', comments), (''snippet'', snippet)])))))))"

definition github_results :: "json \<Rightarrow> py_exn + json list" where
  "github_results data =
     try_bind (py_get data ''items'' (JArr [])) (\<lambda>items.
     try_bind (py_iter items) (\<lambda>its. each_item github_result its))"

text \<open>In \<^verbatim>\<open>search_reddit\<close>; the url is an f-string around the permalink.\<close>

definition reddit_result :: "runtime \<Rightarrow> json \<Rightarrow> py_exn + json" where
  "reddit_result R item =
     try_bind (py_get item ''data'' (JObj [])) (\<lambda>post.
     try_bind (py_get post ''title'' (JStr [])) (\<lambda>title.
     try_bind (py_get post ''permalink'' (JStr [])) (\<lambda>permalink.
     try_bind (py_get post ''score'' (JInt 0)) (\<lambda>score.
     try_bind (py_get post ''num_comments'' (JInt 0)) (\<lambda>num_comments.
     try_bind (py_get post ''selftext'' (JStr [])) (\<lambda>selftext.
     try_bind (py_slice_to 500 selftext) (\<lambda>snippet.
       Inr (JObj [(''title'', title),
                  (''url'', JStr (''https://www.reddit.com'' @ py_str R permalink)),
                  (''score'', score), (''comments'', num_comments),
                  (''snippet'', snippet)]))))))))"

definition reddit_results :: "runtime \<Rightarrow> json \<Rightarrow> py_exn + json list" where
  "reddit_results R data =
     try_bind (py_get data ''data'' (JObj [])) (\<lambda>listing.
     try_bind (py_get listing ''children'' (JArr [])) (\<lambda>children.
     try_bind (py_iter children) (\<lambda>its. each_item (reddit_result R) its)))"

text \<open>
  In \<^verbatim>\<open>search_hackernews\<close>: the top 3 hits; the default of the url is an
  f-string around the object id, built before the lookup.
\<close>

definition hackernews_result :: "runtime \<Rightarrow> json \<Rightarrow> py_exn + json" where
  "hackernews_result R item =
     try_bind (py_get item ''title'' (JStr [])) (\<lambda>title.
     try_bind (py_get item ''objectID'' JNull) (\<lambda>object_id.
     try_bind (py_get item ''url''
                 (JStr (''https://news.ycombinator.com/item?id='' @ py_str R object_id))) (\<lambda>url.
     try_bind (py_get item ''points'' (JInt 0)) (\<lambda>points.
     try_bind (py_get item ''num_comments'' (JInt 0)) (\<lambda>num_comments.
       Inr (JObj [(''title'', title), (''url'', url), (''points'', points),
                  (''comments'', num_comments), (''snippet'', JStr [])]))))))"

definition hackernews_results :: "runtime \<Rightarrow> json \<Rightarrow> py_exn + json list" where
  "hackernews_results R data =
     try_bind (py_get data ''hits'' (JArr [])) (\<lambda>hits.
     try_bind (py_slice_to 3 hits) (\<lambda>top.
     try_bind (py_iter top) (\<lambda>its. each_item (hackernews_result R) its)))"

text \<open>
  The four coroutines: \<^verbatim>\<open>try: ... return results\<close> and
  \<^verbatim>\<open>except Exception: return []\<close>. The result is the list returned, or the
  exception that ends the task.
\<close>

definition search_stackoverflow :: "http_run \<Rightarrow> py_exn + json list" where
  "search_stackoverflow run =
     (case run of
        Responds data \<Rightarrow>
          (case stackoverflow_results data of Inr results \<Rightarrow> Inr results | Inl e \<Rightarrow> Inr [])
      | Fails e \<Rightarrow> Inr []
      | Cancelled e \<Rightarrow> Inl e)"

definition search_github :: "http_run \<Rightarrow> py_exn + json list" where
  "search_github run =
     (case run of
        Responds data \<Rightarrow>
          (case github_results data of Inr results \<Rightarrow> Inr results | Inl e \<Rightarrow> Inr [])
      | Fails e \<Rightarrow> Inr []
      | Cancelled e \<Rightarrow> Inl e)"

definition search_reddit :: "runtime \<Rightarrow> http_run \<Rightarrow> py_exn + json list" where
  "search_reddit R run =
     (case run of
        Responds data \<Rightarrow>
          (case reddit_results R data of Inr results \<Rightarrow> Inr results | Inl e \<Rightarrow> Inr [])
      | Fails e \<Rightarrow> Inr []
      | Cancelled e \<Rightarrow> Inl e)"

definition search_hackernews :: "runtime \<Rightarrow> http_run \<Rightarrow> py_exn + json list" where
  "search_hackernews R run =
     (case run of
        Responds data \<Rightarrow>
          (case hackernews_results R data of Inr results \<Rightarrow> Inr results | Inl e \<Rightarrow> Inr [])
      | Fails e \<Rightarrow> Inr []
      | Cancelled e \<Rightarrow> Inl e)"

text \<open>The dict that \<^verbatim>\<open>aggregate_search_results\<close> returns: its four keys are fixed.\<close>

record search_results =
  stackoverflow :: "json list"
  github :: "json list"
  reddit :: "json list"
  hackernews :: "json list"

text \<open>
  \<^verbatim>\<open>asyncio.gather(*tasks, return_exceptions=True)\<close> hands back, for every
  task, its value or its exception, and does not raise itself.
\<close>

definition gather :: "(py_exn + 'a) list \<Rightarrow> py_exn + (py_exn + 'a) list" where
  "gather tasks = Inr tasks"

text \<open>\<^verbatim>\<open>results[i] if isinstance(results[i], list) else []\<close>.\<close>

definition list_or_empty :: "py_exn + json list \<Rightarrow> json list" where
  "list_or_empty r = (case r of Inr l \<Rightarrow> l | Inl e \<Rightarrow> [])"

definition aggregate_search_results ::
  "runtime \<Rightarrow> http_run \<Rightarrow> http_run \<Rightarrow> http_run \<Rightarrow> http_run \<Rightarrow> py_exn + search_results" where
  "aggregate_search_results R so gh rd hn =
     try_bind (gather [search_stackoverflow so, search_github gh,
                       search_reddit R rd, search_hackernews R hn])
       (\<lambda>results. Inr \<lparr>stackoverflow = list_or_empty (results ! 0),
                        github = list_or_empty (results ! 1),
                        reddit = list_or_empty (results ! 2),
                        hackernews = list_or_empty (results ! 3)\<rparr>)"

definition search_results_values :: "search_results \<Rightarrow> json list list" where
  "search_results_values sr = [stackoverflow sr, github sr, reddit sr, hackernews sr]"

text \<open>\<^verbatim>\<open>sum(len(results) for results in search_results.values())\<close>.\<close>

definition total_results_of :: "search_results \<Rightarrow> nat" where
  "total_results_of sr = sum_list (map length (search_results_values sr))"

section \<open>LLM synthesis\<close>

text \<open>
  \<^verbatim>\<open>get_available_llm_provider\<close>: the first provider, in the fixed order,
  whose environment variable is set to a string that is not blank.
\<close>

definition key_usable :: "string option \<Rightarrow> bool" where
  "key_usable key = (case key of None \<Rightarrow> False | Some k \<Rightarrow> k \<noteq> [] \<and> py_strip k \<noteq> [])"

definition get_available_llm_provider :: "(string \<Rightarrow> string option) \<Rightarrow> (string \<times> string option) option" where
  "get_available_llm_provider getenv =
     find (\<lambda>pk. key_usable (snd pk))
       [(''gemini'', getenv ''GEMINI_API_KEY''),
        (''openai'', getenv ''OPENAI_API_KEY''),
        (''anthropic'', getenv ''ANTHROPIC_API_KEY''),
        (''openrouter'', getenv ''OPENROUTER_API_KEY''),
        (''perplexity'', getenv ''PERPLEXITY_API_KEY'')]"

definition error_dict :: "string \<Rightarrow> json" where
  "error_dict msg = JObj [(''error'', JStr msg), (''findings'', JArr [])]"

text \<open>
  \<^verbatim>\<open>synthesize_with_llm\<close>. The prompt is built from the arguments by string
  formatting and reaches only the provider, so the model leaves its text out.
  \<open>provider_call provider\<close> is what \<^verbatim>\<open>call_gemini\<close>, \<^verbatim>\<open>call_openai\<close>,
  \<^verbatim>\<open>call_anthropic\<close>, \<^verbatim>\<open>call_openrouter\<close> or \<^verbatim>\<open>call_perplexity\<close>
  does in this attempt: it returns the value of \<^verbatim>\<open>json.loads\<close> on the
  cleaned reply, or raises (HTTP failure, a reply without the expected fields,
  a reply that \<^verbatim>\<open>json.loads\<close> rejects).
\<close>

definition synthesize_with_llm ::
  "runtime \<Rightarrow> (string \<Rightarrow> string option) \<Rightarrow> (string \<Rightarrow> py_exn + json) \<Rightarrow> json" where
  "synthesize_with_llm R getenv provider_call =
     (case get_available_llm_provider getenv of
        None \<Rightarrow>
          error_dict (''No LLM API key configured. Please set GEMINI_API_KEY, '' @
                      ''OPENAI_API_KEY, or ANTHROPIC_API_KEY in your .env file.'')
      | Some (provider, api_key) \<Rightarrow>
          (case (if provider = ''gemini'' then provider_call ''gemini''
                 else if provider = ''openai'' then provider_call ''openai''
                 else if provider = ''anthropic'' then provider_call ''anthropic''
                 else if provider = ''openrouter'' then provider_call ''openrouter''
                 else if provider = ''perplexity'' then provider_call ''perplexity''
                 else Inr (error_dict (''Unknown provider: '' @ provider)))
           of Inr synthesis \<Rightarrow> synthesis
            | Inl e \<Rightarrow> error_dict (''LLM synthesis failed: '' @ exn_str R e)))"

section \<open>Rendering\<close>

text \<open>
  The markdown branch of \<^verbatim>\<open>community_search\<close> collects \<^verbatim>\<open>lines\<close>, a
  list of values (the literal lines are strings, five lines of every finding
  are whatever the finding holds), and joins them.
\<close>

definition finding_lines :: "runtime \<Rightarrow> nat \<Rightarrow> json \<Rightarrow> py_exn + json list" where
  "finding_lines R i finding =
     try_bind (py_get finding ''title'' (JStr ''Recommendation'')) (\<lambda>title.
     try_bind (py_get finding ''difficulty'' (JStr ''Unknown'')) (\<lambda>difficulty.
     try_bind (py_get finding ''community_score'' (JStr ''N/A'')) (\<lambda>community_score.
     try_bind (py_get finding ''problem'' (JStr ''No problem description'')) (\<lambda>problem.
     try_bind (py_get finding ''solution'' (JStr ''No solution provided'')) (\<lambda>solution.
     try_bind (py_get finding ''benefit'' (JStr ''No benefits listed'')) (\<lambda>benefit.
     try_bind (py_get finding ''evidence'' (JStr ''No evidence provided'')) (\<lambda>evidence.
     try_bind (py_get finding ''gotchas'' (JStr ''None noted'')) (\<lambda>gotchas.
       Inr [JStr (''### '' @ dec i @ ''. '' @ py_str R title),
            JStr (''**Difficulty**: '' @ py_str R difficulty @
                  '' | **Community Score**: '' @ py_str R community_score @ ''/100''),
            JStr '''',
            JStr ''**Problem**:'', problem, JStr '''',
            JStr ''**Solution**:'', solution, JStr '''',
            JStr ''**Benefits**:'', benefit, JStr '''',
            JStr ''**Evidence**:'', evidence, JStr '''',
            JStr ''**Gotchas**:'', gotchas, JStr '''',
            JStr ''---'', JStr '''']))))))))"

text \<open>\<^verbatim>\<open>for i, finding in enumerate(findings, 1): lines.extend([...])\<close>.\<close>

fun findings_lines :: "runtime \<Rightarrow> nat \<Rightarrow> json list \<Rightarrow> py_exn + json list" where
  "findings_lines R i [] = Inr []"
| "findings_lines R i (finding # rest) =
     try_bind (finding_lines R i finding) (\<lambda>ls.
     try_bind (findings_lines R (Suc i) rest) (\<lambda>more. Inr (ls @ more)))"

text \<open>
  \<^verbatim>\<open>"\n".join(lines)\<close>: the first item that is not a str raises; the
  second argument is the index of the head of the list.
\<close>

fun str_items :: "json list \<Rightarrow> nat \<Rightarrow> py_exn + string list" where
  "str_items [] i = Inr []"
| "str_items (JStr s # rest) i = try_bind (str_items rest (Suc i)) (\<lambda>ss. Inr (s # ss))"
| "str_items (v # rest) i = Inl (JoinItem i v)"

definition py_join_lines :: "json list \<Rightarrow> py_exn + string" where
  "py_join_lines lines = try_bind (str_items lines 0) (\<lambda>ss. Inr (join_lines ss))"

definition sources_lines :: "search_results \<Rightarrow> json list" where
  "sources_lines sr =
     [JStr ''## Sources Searched'',
      JStr (''- Stack Overflow: '' @ dec (length (stackoverflow sr)) @ '' results''),
      JStr (''- GitHub: '' @ dec (length (github sr)) @ '' results''),
      JStr (''- Reddit: '' @ dec (length (reddit sr)) @ '' results''),
      JStr (''- Hacker News: '' @ dec (length (hackernews sr)) @ '' results'')]"

definition render_markdown ::
  "runtime \<Rightarrow> CommunitySearchInput \<Rightarrow> json \<Rightarrow> search_results \<Rightarrow> py_exn + string" where
  "render_markdown R p synthesis sr =
     (let lines0 = [JStr (''# Community Research: '' @ topic p),
                    JStr (''**Language**: '' @ language p),
                    JStr '''']
      in
      try_bind (py_contains ''error'' synthesis) (\<lambda>has_error.
      try_bind (if has_error
                then try_bind (py_getitem synthesis ''error'') (\<lambda>err.
                       Inr (lines0 @ [JStr (''**Error**: '' @ py_str R err), JStr '''']))
                else Inr lines0) (\<lambda>lines1.
      try_bind (py_get synthesis ''findings'' (JArr [])) (\<lambda>findings.
      try_bind (if py_truthy findings
                then try_bind (py_len findings) (\<lambda>n.
                     try_bind (py_iter findings) (\<lambda>items.
                     try_bind (findings_lines R 1 items) (\<lambda>fl.
                       Inr (lines1 @ [JStr (''## Found '' @ dec n @ '' Recommendations''), JStr '''']
                            @ fl @ sources_lines sr))))
                else Inr lines1) (\<lambda>lines2.
      py_join_lines lines2)))))"

text \<open>The JSON branch: the \<^verbatim>\<open>response\<close> dict, before \<^verbatim>\<open>json.dumps\<close>.\<close>

definition response_items ::
  "CommunitySearchInput \<Rightarrow> json \<Rightarrow> json \<Rightarrow> search_results \<Rightarrow> nat \<Rightarrow> (string \<times> json) list" where
  "response_items p findings err sr total_results =
     [(''language'', JStr (language p)),
      (''topic'', JStr (topic p)),
      (''total_sources'', JInt (int total_results)),
      (''findings'', findings),
      (''error'', err),
      (''sources_searched'',
         JObj [(''stackoverflow'', JInt (int (length (stackoverflow sr)))),
               (''github'', JInt (int (length (github sr)))),
               (''reddit'', JInt (int (length (reddit sr)))),
               (''hackernews'', JInt (int (length (hackernews sr))))])]"

definition json_response ::
  "CommunitySearchInput \<Rightarrow> json \<Rightarrow> search_results \<Rightarrow> nat \<Rightarrow> py_exn + json" where
  "json_response p synthesis sr total_results =
     try_bind (py_get synthesis ''findings'' (JArr [])) (\<lambda>findings.
     try_bind (py_get synthesis ''error'' JNull) (\<lambda>err.
       Inr (JObj (response_items p findings err sr total_results))))"

text \<open>
  The truncation of an oversized JSON response. \<^verbatim>\<open>json.loads(result)\<close>
  rebuilds the dict that \<^verbatim>\<open>json.dumps\<close> printed, so \<open>response_dict\<close> is the
  response itself.
\<close>

definition truncation_message :: "nat \<Rightarrow> nat \<Rightarrow> string" where
  "truncation_message original_count kept =
     ''Response truncated from '' @ dec original_count @ '' to '' @ dec kept @
     '' findings due to size limits.''"

definition truncate_response :: "json \<Rightarrow> py_exn + json" where
  "truncate_response response_dict =
     try_bind (py_get response_dict ''findings'' (JArr [])) (\<lambda>fs.
     try_bind (py_len fs) (\<lambda>original_count.
     try_bind (py_getitem response_dict ''findings'') (\<lambda>fs'.
     try_bind (py_slice_to (max 1 (original_count div 2)) fs') (\<lambda>kept.
     try_bind (py_len kept) (\<lambda>kept_count.
       (case response_dict of
          JObj items \<Rightarrow>
            Inr (JObj (dict_set ''truncation_message''
                         (JStr (truncation_message original_count kept_count))
                      (dict_set ''truncated'' (JBool True)
                      (dict_set ''findings'' kept items))))
        | _ \<Rightarrow> Inl (NotSubscriptable response_dict)))))))"

definition truncation_notice :: string where
  "truncation_notice =
     [CHR 0x0A, CHR 0x0A] @
     ''[Response truncated due to size limits. Use JSON format for full data.]''"

text \<open>
  Format the response and check the character limit: the part of the
  \<^verbatim>\<open>try\<close> body of \<^verbatim>\<open>community_search\<close> between the synthesis and the
  write to the cache.
\<close>

definition render_result ::
  "runtime \<Rightarrow> CommunitySearchInput \<Rightarrow> json \<Rightarrow> search_results \<Rightarrow> nat \<Rightarrow> py_exn + string" where
  "render_result R p synthesis sr total_results =
     (if response_format p = MARKDOWN
      then try_bind (render_markdown R p synthesis sr) (\<lambda>res.
             if length res > CHARACTER_LIMIT
             then Inr (take CHARACTER_LIMIT res @ truncation_notice)
             else Inr res)
      else try_bind (json_response p synthesis sr total_results) (\<lambda>response.
             let res = json_dumps_indent R response in
             if length res > CHARACTER_LIMIT
             then try_bind (truncate_response response) (\<lambda>response_dict.
                    Inr (json_dumps_indent R response_dict))
             else Inr res))"

section \<open>The tool community\_search\<close>

text \<open>
  The world of one attempt of the retry loop: what each backend does for the
  query and the language, the environment variables, what the call of a
  provider does, and the clock reading of \<^verbatim>\<open>set_cached_result\<close>.
\<close>

record attempt_env =
  stackoverflow_run :: "string \<Rightarrow> string \<Rightarrow> http_run"
  github_run :: "string \<Rightarrow> string \<Rightarrow> http_run"
  reddit_run :: "string \<Rightarrow> string \<Rightarrow> http_run"
  hackernews_run :: "string \<Rightarrow> http_run"
  getenv :: "string \<Rightarrow> string option"
  provider_call :: "string \<Rightarrow> py_exn + json"
  store_time :: real

text \<open>
  The world of one call: the clock readings of \<^verbatim>\<open>check_rate_limit\<close> and
  \<^verbatim>\<open>get_cached_result\<close>, and the world of every attempt.
\<close>

record call_env =
  rate_time :: real
  lookup_time :: real
  attempt_envs :: "nat \<Rightarrow> attempt_env"

text \<open>The module's global state.\<close>

record globals =
  cache_of :: cache
  tracker_of :: rate_limit_tracker

text \<open>
  What a call did besides computing its payload, in order: the fan-out to the
  backends and the synthesis of an attempt, and the seconds slept.
\<close>

datatype event = Searched nat | Synthesized nat | Slept nat

definition rate_limit_payload :: "runtime \<Rightarrow> string" where
  "rate_limit_payload R =
     json_dumps_indent R
       (JObj [(''error'', JStr (''Rate limit exceeded. Maximum 10 requests per minute. '' @
                                ''Please wait and try again.''))])"

definition no_results_payload :: "runtime \<Rightarrow> CommunitySearchInput \<Rightarrow> string" where
  "no_results_payload R p =
     json_dumps_indent R
       (error_dict (''No results found for '' @ [CHR 0x22] @ topic p @ [CHR 0x22] @ '' in '' @
                    language p @ ''. Try different search terms or a more common topic.''))"

definition failed_payload :: "runtime \<Rightarrow> py_exn \<Rightarrow> string" where
  "failed_payload R e =
     json_dumps_indent R
       (error_dict (''Search failed after '' @ dec MAX_RETRIES @ '' attempts: '' @ exn_str R e))"

definition unexpected_payload :: "runtime \<Rightarrow> string" where
  "unexpected_payload R = json_dumps_indent R (error_dict ''Unexpected error'')"

definition search_query :: "CommunitySearchInput \<Rightarrow> string" where
  "search_query p =
     (let q = language p @ '' '' @ topic p in
      case goal p of None \<Rightarrow> q | Some g \<Rightarrow> if g \<noteq> [] then q @ '' '' @ g else q)"

text \<open>
  \<^verbatim>\<open>await aggregate_search_results(search_query, params.language)\<close> in
  the world of one attempt.
\<close>

definition attempt_search ::
  "runtime \<Rightarrow> CommunitySearchInput \<Rightarrow> attempt_env \<Rightarrow> py_exn + search_results" where
  "attempt_search R p ae =
     aggregate_search_results R
       (stackoverflow_run ae (search_query p) (language p))
       (github_run ae (search_query p) (language p))
       (reddit_run ae (search_query p) (language p))
       (hackernews_run ae (search_query p))"

text \<open>
  The \<^verbatim>\<open>try\<close> body of attempt \<open>i\<close>: the events, and either the exception
  that leaves the body or the payload returned with the cache after
  \<^verbatim>\<open>set_cached_result\<close>.
\<close>

definition run_attempt ::
  "runtime \<Rightarrow> CommunitySearchInput \<Rightarrow> string \<Rightarrow> attempt_env \<Rightarrow> nat \<Rightarrow> cache
   \<Rightarrow> event list \<times> (py_exn + string \<times> cache)" where
  "run_attempt R p cache_key ae i c =
     (case attempt_search R p ae
      of Inl e \<Rightarrow> ([Searched i], Inl e)
       | Inr sr \<Rightarrow>
           let total_results = total_results_of sr in
           if total_results = 0
           then let res = no_results_payload R p
                in ([Searched i], Inr (res, set_cached_result (store_time ae) cache_key res c))
           else let synthesis = synthesize_with_llm R (getenv ae) (provider_call ae)
                in (case render_result R p synthesis sr total_results of
                      Inl e \<Rightarrow> ([Searched i, Synthesized i], Inl e)
                    | Inr res \<Rightarrow>
                        ([Searched i, Synthesized i],
                         Inr (res, set_cached_result (store_time ae) cache_key res c))))"

text \<open>
  \<^verbatim>\<open>for attempt in range(MAX_RETRIES)\<close> from \<open>attempt\<close> on, with the line
  after the loop: the payload, the cache and the events.
\<close>

function retry_loop ::
  "runtime \<Rightarrow> CommunitySearchInput \<Rightarrow> string \<Rightarrow> (nat \<Rightarrow> attempt_env) \<Rightarrow> nat \<Rightarrow> cache
   \<Rightarrow> string \<times> cache \<times> event list" where
  "retry_loop R p cache_key envs attempt c =
     (if attempt \<ge> MAX_RETRIES then (unexpected_payload R, c, [])
      else
        (case run_attempt R p cache_key (envs attempt) attempt c of
           (evs, Inr (res, c')) \<Rightarrow> (res, c', evs)
         | (evs, Inl e) \<Rightarrow>
             if attempt = MAX_RETRIES - 1 then (failed_payload R e, c, evs)
             else (case retry_loop R p cache_key envs (Suc attempt) c of
                     (res, c', evs') \<Rightarrow> (res, c', evs @ [Slept (2 ^ attempt)] @ evs'))))"
  by pat_completeness auto
termination
  by (relation "measure (\<lambda>(R, p, cache_key, envs, attempt, c). MAX_RETRIES - attempt)") auto

declare retry_loop.simps [simp del]

text \<open>
  \<^verbatim>\<open>community_search(params)\<close>: the payload, the global state after the
  call and the events of the call.
\<close>

definition community_search ::
  "runtime \<Rightarrow> CommunitySearchInput \<Rightarrow> call_env \<Rightarrow> globals \<Rightarrow> string \<times> globals \<times> event list" where
  "community_search R p env g =
     (case check_rate_limit (rate_time env) ''community_search'' (tracker_of g) of
        (False, tr) \<Rightarrow> (rate_limit_payload R, g\<lparr>tracker_of := tr\<rparr>, [])
      | (True, tr) \<Rightarrow>
          let cache_key = community_search_cache_key R p in
          (case get_cached_result (lookup_time env) cache_key (cache_of g) of
             (cached_result, c) \<Rightarrow>
               let miss = (case retry_loop R p cache_key (attempt_envs env) 0 c of
                             (res, c', evs) \<Rightarrow> (res, \<lparr>cache_of = c', tracker_of = tr\<rparr>, evs))
               in (case cached_result of
                     None \<Rightarrow> miss
                   | Some s \<Rightarrow>
                       if s \<noteq> [] then (s, \<lparr>cache_of = c, tracker_of = tr\<rparr>, []) else miss)))"

text \<open>
  The live part of the window of \<^verbatim>\<open>community_search\<close> at the admission
  check of a call.
\<close>

definition cs_window :: "call_env \<Rightarrow> globals \<Rightarrow> real list" where
  "cs_window env g = prune (rate_time env) (window_of (tracker_of g) ''community_search'')"

section \<open>Concrete runs\<close>

text \<open>
  The values at which the theorems below are instantiated. The theorems hold
  for every runtime; \<open>demo_runtime\<close> is one of them, with the identity as
  digest and one flat printer for the three conversions to text.
\<close>

fun show_json :: "json \<Rightarrow> string" where
  "show_json JNull = ''null''"
| "show_json (JBool b) = (if b then ''true'' else ''false'')"
| "show_json (JInt i) = (if i < 0 then ''-'' else []) @ dec (nat \<bar>i\<bar>)"
| "show_json (JFloat r) = ''<float>''"
| "show_json (JStr s) = [CHR 0x22] @ s @ [CHR 0x22]"
| "show_json (JArr xs) = ''['' @ concat (map (\<lambda>x. show_json x @ '','') xs) @ '']''"
| "show_json (JObj kvs) =
     ''{'' @ concat (map (\<lambda>(k, x). [CHR 0x22] @ k @ [CHR 0x22] @ '':'' @ show_json x @ '','') kvs) @ ''}''"

definition demo_runtime :: runtime where
  "demo_runtime =
     \<lparr>md5_hexdigest = (\<lambda>s. s),
      json_dumps_sorted = show_json,
      json_dumps_indent = show_json,
      str_of_value = show_json,
      str_of_exn = (\<lambda>e. ''error'')\<rparr>"

definition demo_input :: CommunitySearchInput where
  "demo_input =
     \<lparr>language = ''Python'',
      topic = ''FastAPI background task queue with Redis'',
      goal = None,
      current_setup = None,
      response_format = MARKDOWN\<rparr>"

text \<open>
  A response of Stack Overflow with one item, and the hit that
  \<^verbatim>\<open>search_stackoverflow\<close> makes of it.
\<close>

definition demo_response :: json where
  "demo_response =
     JObj [(''items'',
            JArr [JObj [(''title'', JStr ''Celery vs RQ for FastAPI''),
                        (''link'', JStr ''https://stackoverflow.com/q/1''),
                        (''score'', JInt 12),
                        (''answer_count'', JInt 3),
                        (''body'', JStr ''How do I run background jobs?'')]])]"

definition demo_hit :: json where
  "demo_hit =
     JObj [(''title'', JStr ''Celery vs RQ for FastAPI''),
           (''url'', JStr ''https://stackoverflow.com/q/1''),
           (''score'', JInt 12),
           (''answer_count'', JInt 3),
           (''snippet'', JStr ''How do I run background jobs?'')]"

text \<open>
  An attempt in which Stack Overflow does \<open>so\<close>, GitHub times out, Reddit
  and Hacker News answer without hits, only \<^verbatim>\<open>GEMINI_API_KEY\<close> is set and the
  provider call does \<open>reply\<close>; and a call all of whose attempts are like
  \<open>ae\<close>.
\<close>

definition demo_attempt :: "http_run \<Rightarrow> py_exn + json \<Rightarrow> attempt_env" where
  "demo_attempt so reply =
     \<lparr>stackoverflow_run = (\<lambda>q l. so),
      github_run = (\<lambda>q l. Fails (External ''timed out'')),
      reddit_run = (\<lambda>q l. Responds (JObj [(''data'', JObj [(''children'', JArr [])])])),
      hackernews_run = (\<lambda>q. Responds (JObj [(''hits'', JArr [])])),
      getenv = (\<lambda>name. if name = ''GEMINI_API_KEY'' then Some ''k3y'' else None),
      provider_call = (\<lambda>provider. reply),
      store_time = 5\<rparr>"

text \<open>
  A finding with a title and a solution, the reply of a provider that holds
  one such finding, and the hits of an attempt in which only Stack Overflow
  found something.
\<close>

definition demo_finding :: "string \<Rightarrow> json" where
  "demo_finding solution = JObj [(''title'', JStr ''Use Celery''), (''solution'', JStr solution)]"

definition demo_reply :: "string \<Rightarrow> json" where
  "demo_reply solution = JObj [(''findings'', JArr [demo_finding solution])]"

definition demo_results :: search_results where
  "demo_results = \<lparr>stackoverflow = [demo_hit], github = [], reddit = [], hackernews = []\<rparr>"

text \<open>The markdown text of \<open>demo_reply solution\<close> for \<open>demo_input\<close> and \<open>demo_results\<close>.\<close>

definition demo_markdown :: "string \<Rightarrow> string" where
  "demo_markdown solution =
     join_lines
       [''# Community Research: FastAPI background task queue with Redis'',
        ''**Language**: Python'',
        [],
        ''## Found 1 Recommendations'',
        [],
        ''### 1. Use Celery'',
        ''**Difficulty**: Unknown | **Community Score**: N/A/100'',
        [],
        ''**Problem**:'', ''No problem description'', [],
        ''**Solution**:'', solution, [],
        ''**Benefits**:'', ''No benefits listed'', [],
        ''**Evidence**:'', ''No evidence provided'', [],
        ''**Gotchas**:'', ''None noted'', [],
        ''---'', [],
        ''## Sources Searched'',
        ''- Stack Overflow: 1 results'',
        ''- GitHub: 0 results'',
        ''- Reddit: 0 results'',
        ''- Hacker News: 0 results'']"

text \<open>The markdown text of a synthesis that is only an error message, for \<open>demo_input\<close>.\<close>

definition demo_error_markdown :: "string \<Rightarrow> string" where
  "demo_error_markdown msg =
     join_lines
       [''# Community Research: FastAPI background task queue with Redis'',
        ''**Language**: Python'',
        [],
        ''**Error**: '' @ msg,
        []]"

definition demo_call :: "attempt_env \<Rightarrow> call_env" where
  "demo_call ae = \<lparr>rate_time = 0, lookup_time = 1, attempt_envs = (\<lambda>i. ae)\<rparr>"

definition fresh_globals :: globals where
  "fresh_globals = \<lparr>cache_of = Map.empty, tracker_of = Map.empty\<rparr>"

section \<open>Properties of the rate limiter and the cache\<close>

lemma prune_all_live:
  "\<forall>s\<in>set w. now - s < RATE_LIMIT_WINDOW \<Longrightarrow> prune now w = w"
  by (simp add: prune_def)

lemma prune_all_stale:
  "\<forall>s\<in>set w. \<not> now - s < RATE_LIMIT_WINDOW \<Longrightarrow> prune now w = []"
  by (simp add: prune_def)

lemma window_of_upd: "window_of (tr(n \<mapsto> w)) n = w"
  by (simp add: window_of_def)

lemma check_rate_limit_admits:
  "fst (check_rate_limit now n tr) = (length (prune now (window_of tr n)) < RATE_LIMIT_MAX_CALLS)"
  by (simp add: check_rate_limit_def Let_def)

lemma check_rate_limit_window:
  "window_of (snd (check_rate_limit now n tr)) n =
     (if fst (check_rate_limit now n tr) then prune now (window_of tr n) @ [now]
      else prune now (window_of tr n))"
  by (simp add: check_rate_limit_def Let_def window_of_upd)

lemma check_rate_limit_frame:
  "m \<noteq> n \<Longrightarrow> snd (check_rate_limit now n tr) m = tr m"
  by (simp add: check_rate_limit_def Let_def)

lemma prune_prune:
  "t \<le> t' \<Longrightarrow> prune t' (prune t H) = prune t' H"
  unfolding prune_def filter_filter
  by (rule filter_cong) auto

lemma prune_append: "prune t (xs @ ys) = prune t xs @ prune t ys"
  by (simp add: prune_def)

lemma spaced_snoc:
  assumes "spaced H" "length (prune t H) < RATE_LIMIT_MAX_CALLS"
  shows "spaced (H @ [t])"
  unfolding spaced_def
proof (intro allI impI)
  fix j assume "j < length (H @ [t])"
  then consider "j < length H" | "j = length H" by fastforce
  then show "length (prune ((H @ [t]) ! j) (take j (H @ [t]))) < RATE_LIMIT_MAX_CALLS"
  proof cases
    case 1
    then show ?thesis using assms(1) by (simp add: spaced_def nth_append)
  next
    case 2
    then show ?thesis using assms(2) by simp
  qed
qed

lemma run_spaced:
  "sorted (H @ ts) \<Longrightarrow> spaced H \<Longrightarrow> \<forall>t\<in>set ts. prune t (window_of tr n) = prune t H \<Longrightarrow>
   spaced (H @ admitted ts (fst (check_rate_limit_run ts n tr)))"
proof (induction ts arbitrary: H tr)
  case Nil
  then show ?case by (simp add: admitted_def)
next
  case (Cons t ts)
  obtain ok tr' where step: "check_rate_limit t n tr = (ok, tr')"
    by (cases "check_rate_limit t n tr")
  have kept: "prune t (window_of tr n) = prune t H" using Cons.prems(3) by simp
  have ok: "ok = (length (prune t H) < RATE_LIMIT_MAX_CALLS)"
    using check_rate_limit_admits [of t n tr] step kept by simp
  have w': "window_of tr' n = (if ok then prune t H @ [t] else prune t H)"
    using check_rate_limit_window [of t n tr] step kept by simp
  have le: "\<forall>t'\<in>set ts. t \<le> t'"
    using Cons.prems(1) by (simp add: sorted_append)
  show ?case
  proof (cases ok)
    case True
    have s1: "sorted ((H @ [t]) @ ts)" using Cons.prems(1) by simp
    have s2: "spaced (H @ [t])" using spaced_snoc Cons.prems(2) ok True by simp
    have s3: "\<forall>t'\<in>set ts. prune t' (window_of tr' n) = prune t' (H @ [t])"
    proof
      fix t' assume "t' \<in> set ts"
      then have "t \<le> t'" using le by simp
      then have "prune t' (prune t H) = prune t' H" by (rule prune_prune)
      then show "prune t' (window_of tr' n) = prune t' (H @ [t])"
        using w' True by (simp add: prune_append)
    qed
    from Cons.IH [OF s1 s2 s3] show ?thesis
      using step True by (simp add: admitted_def split_beta)
  next
    case False
    have s1: "sorted (H @ ts)" using Cons.prems(1) by (simp add: sorted_append)
    have s3: "\<forall>t'\<in>set ts. prune t' (window_of tr' n) = prune t' H"
      using w' False le by (simp add: prune_prune)
    from Cons.IH [OF s1 Cons.prems(2) s3] show ?thesis
      using step False by (simp add: admitted_def split_beta)
  qed
qed

lemma spaced_gap:
  assumes "sorted l" "spaced l" "i + RATE_LIMIT_MAX_CALLS < length l"
  shows "l ! (i + RATE_LIMIT_MAX_CALLS) - l ! i \<ge> RATE_LIMIT_WINDOW"
proof (rule ccontr)
  define m where "m = RATE_LIMIT_MAX_CALLS"
  define j where "j = i + m"
  define mid where "mid = take m (drop i l)"
  assume "\<not> ?thesis"
  then have close: "l ! j - l ! i < RATE_LIMIT_WINDOW" by (simp add: j_def m_def)
  have jl: "j < length l" using assms(3) by (simp add: j_def m_def)
  have split: "take j l = take i l @ mid"
    unfolding j_def mid_def by (rule take_add)
  have len: "length mid = m"
    using jl by (simp add: mid_def j_def)
  have "\<forall>s\<in>set mid. l ! j - s < RATE_LIMIT_WINDOW"
  proof
    fix s assume "s \<in> set mid"
    then obtain k where k: "k < length mid" "s = mid ! k"
      by (auto simp: in_set_conv_nth)
    have km: "k < m" using k(1) len by simp
    have "s = l ! (i + k)" using k(2) km jl by (simp add: mid_def j_def)
    moreover have "l ! i \<le> l ! (i + k)"
      using assms(1) km jl by (intro sorted_nth_mono) (auto simp: j_def)
    ultimately show "l ! j - s < RATE_LIMIT_WINDOW" using close by linarith
  qed
  then have "prune (l ! j) mid = mid"
    by (rule prune_all_live)
  then have "length (prune (l ! j) (take j l)) \<ge> m"
    using len by (simp add: split prune_append)
  moreover have "length (prune (l ! j) (take j l)) < m"
    using assms(2) jl by (simp add: spaced_def m_def)
  ultimately show False by simp
qed


lemma run_all_live:
  "\<forall>s\<in>set (window_of tr n) \<union> set ts. \<forall>t\<in>set ts. t - s < RATE_LIMIT_WINDOW \<Longrightarrow>
   fst (check_rate_limit_run ts n tr) =
     map (\<lambda>i. length (window_of tr n) + i < RATE_LIMIT_MAX_CALLS) [0..<length ts]"
proof (induction ts arbitrary: tr)
  case Nil
  then show ?case by simp
next
  case (Cons t ts)
  let ?w = "window_of tr n"
  have live: "prune t ?w = ?w"
    using Cons.prems by (intro prune_all_live) auto
  obtain ok tr' where step: "check_rate_limit t n tr = (ok, tr')"
    by (cases "check_rate_limit t n tr")
  have ok: "ok = (length ?w < RATE_LIMIT_MAX_CALLS)"
    using check_rate_limit_admits [of t n tr] step live by simp
  have w': "window_of tr' n = (if ok then ?w @ [t] else ?w)"
    using check_rate_limit_window [of t n tr] step live by simp
  have "\<forall>s\<in>set (window_of tr' n) \<union> set ts. \<forall>t\<in>set ts. t - s < RATE_LIMIT_WINDOW"
    using Cons.prems w' by auto
  from Cons.IH [OF this]
  have rest: "fst (check_rate_limit_run ts n tr') =
     map (\<lambda>i. length (window_of tr' n) + i < RATE_LIMIT_MAX_CALLS) [0..<length ts]" .
  have shift: "map (\<lambda>i. length (window_of tr' n) + i < RATE_LIMIT_MAX_CALLS) [0..<length ts]
     = map (\<lambda>i. length ?w + Suc i < RATE_LIMIT_MAX_CALLS) [0..<length ts]"
    using ok w' by auto
  have "[0..<length (t # ts)] = 0 # map Suc [0..<length ts]"
    by (simp add: upt_conv_Cons map_Suc_upt del: upt_Suc)
  then show ?case
    using step rest shift ok by (simp add: split_beta comp_def del: upt_Suc)
qed

lemma run_from_stale:
  assumes stale: "\<forall>s\<in>set (window_of tr n). \<forall>t\<in>set ts. \<not> t - s < RATE_LIMIT_WINDOW"
    and near: "\<forall>s\<in>set ts. \<forall>t\<in>set ts. t - s < RATE_LIMIT_WINDOW"
  shows "fst (check_rate_limit_run ts n tr) = map (\<lambda>i. i < RATE_LIMIT_MAX_CALLS) [0..<length ts]"
proof (cases ts)
  case Nil
  then show ?thesis by simp
next
  case (Cons t ts')
  obtain ok tr' where step: "check_rate_limit t n tr = (ok, tr')"
    by (cases "check_rate_limit t n tr")
  have kept: "prune t (window_of tr n) = []"
    using stale Cons by (intro prune_all_stale) auto
  have ok: "ok"
    using check_rate_limit_admits [of t n tr] step kept by (simp add: RATE_LIMIT_MAX_CALLS_def)
  have w': "window_of tr' n = [t]"
    using check_rate_limit_window [of t n tr] step kept ok by simp
  have "\<forall>s\<in>set (window_of tr' n) \<union> set ts'. \<forall>t\<in>set ts'. t - s < RATE_LIMIT_WINDOW"
    using near Cons w' by auto
  from run_all_live [OF this]
  have rest: "fst (check_rate_limit_run ts' n tr') =
     map (\<lambda>i. Suc i < RATE_LIMIT_MAX_CALLS) [0..<length ts']"
    using w' by simp
  have "[0..<length (t # ts')] = 0 # map Suc [0..<length ts']"
    by (simp add: upt_conv_Cons map_Suc_upt del: upt_Suc)
  then show ?thesis
    using step rest ok Cons
    by (simp add: split_beta comp_def RATE_LIMIT_MAX_CALLS_def del: upt_Suc)
qed

lemma admitted_subset: "set (admitted ts oks) \<subseteq> set ts"
  by (auto simp: admitted_def dest: set_zip_leftD)

lemma sorted_admitted: "sorted ts \<Longrightarrow> sorted (admitted ts oks)"
proof (induction ts arbitrary: oks)
  case Nil
  then show ?case by (simp add: admitted_def)
next
  case (Cons t ts)
  show ?case
  proof (cases oks)
    case Nil
    then show ?thesis by (simp add: admitted_def)
  next
    case (Cons ok oks')
    have "admitted (t # ts) oks = (if ok then t # admitted ts oks' else admitted ts oks')"
      using Cons by (simp add: admitted_def)
    moreover have "sorted (admitted ts oks')" using Cons.IH Cons.prems by simp
    moreover have "\<forall>s\<in>set (admitted ts oks'). t \<le> s"
      using Cons.prems admitted_subset [of ts oks'] by auto
    ultimately show ?thesis by simp
  qed
qed

lemma spaced_Nil: "spaced []"
  by (simp add: spaced_def)

lemma admitted_Cons:
  "admitted (t # ts) (ok # oks) = (if ok then [t] else []) @ admitted ts oks"
  by (simp add: admitted_def)

lemma run_sliding:
  "sorted (H @ ts) \<Longrightarrow> \<forall>t\<in>set ts. prune t (window_of tr n) = prune t H \<Longrightarrow>
   j < length ts \<Longrightarrow>
   fst (check_rate_limit_run ts n tr) ! j =
     (length (prune (ts ! j)
                (H @ admitted (take j ts) (take j (fst (check_rate_limit_run ts n tr)))))
      < RATE_LIMIT_MAX_CALLS)"
proof (induction ts arbitrary: H tr j)
  case Nil
  then show ?case by simp
next
  case (Cons t ts)
  obtain ok tr' where step: "check_rate_limit t n tr = (ok, tr')"
    by (cases "check_rate_limit t n tr")
  obtain oks where rest: "fst (check_rate_limit_run ts n tr') = oks" by simp
  have run: "fst (check_rate_limit_run (t # ts) n tr) = ok # oks"
    using step rest by (simp add: split_beta)
  have kept: "prune t (window_of tr n) = prune t H" using Cons.prems(2) by simp
  have ok: "ok = (length (prune t H) < RATE_LIMIT_MAX_CALLS)"
    using check_rate_limit_admits [of t n tr] step kept by simp
  have w': "window_of tr' n = (if ok then prune t H @ [t] else prune t H)"
    using check_rate_limit_window [of t n tr] step kept by simp
  have le: "\<forall>t'\<in>set ts. t \<le> t'"
    using Cons.prems(1) by (simp add: sorted_append)
  show ?case
  proof (cases j)
    case 0
    then show ?thesis using run ok by (simp add: admitted_def)
  next
    case (Suc j')
    let ?H' = "H @ (if ok then [t] else [])"
    have s1: "sorted (?H' @ ts)" using Cons.prems(1) by (simp add: sorted_append)
    have s2: "\<forall>t'\<in>set ts. prune t' (window_of tr' n) = prune t' ?H'"
    proof
      fix t' assume "t' \<in> set ts"
      then have "t \<le> t'" using le by simp
      then have "prune t' (prune t H) = prune t' H" by (rule prune_prune)
      then show "prune t' (window_of tr' n) = prune t' ?H'"
        using w' by (simp add: prune_append) (simp add: prune_def)
    qed
    have j': "j' < length ts" using Cons.prems(3) Suc by simp
    from Cons.IH [OF s1 s2 j']
    have "oks ! j' = (length (prune (ts ! j') (?H' @ admitted (take j' ts) (take j' oks)))
                       < RATE_LIMIT_MAX_CALLS)"
      using rest by simp
    then show ?thesis
      using run Suc by (simp add: admitted_Cons)
  qed
qed


text \<open>
  Claim C5. An admission check prunes the window to the timestamps less than
  60 seconds old, admits exactly when fewer than 10 remain, appends the
  current reading only when it admits, and leaves the windows of the other
  operation names alone. So, for calls whose readings lie pairwise less than
  60 seconds apart and which meet a window with no live timestamp, the first
  10 are admitted and every later one is rejected. With a clock that does not
  run backwards, from an empty window, a call is admitted exactly when fewer
  than 10 of the calls admitted before it are less than 60 seconds old, and
  any admitted call and the tenth admitted call after it are at least 60
  seconds apart.
\<close>

theorem rate_limiter_sliding_window:
  "fst (check_rate_limit now n tr) = (length (prune now (window_of tr n)) < RATE_LIMIT_MAX_CALLS)
   \<and> window_of (snd (check_rate_limit now n tr)) n =
       (if fst (check_rate_limit now n tr) then prune now (window_of tr n) @ [now]
        else prune now (window_of tr n))
   \<and> (\<forall>m. m \<noteq> n \<longrightarrow> snd (check_rate_limit now n tr) m = tr m)
   \<and> ((\<forall>s\<in>set (window_of tr n). \<forall>t\<in>set ts. \<not> t - s < RATE_LIMIT_WINDOW) \<and>
       (\<forall>s\<in>set ts. \<forall>t\<in>set ts. t - s < RATE_LIMIT_WINDOW) \<longrightarrow>
       fst (check_rate_limit_run ts n tr) = map (\<lambda>i. i < RATE_LIMIT_MAX_CALLS) [0..<length ts])
   \<and> (sorted ts \<and> window_of tr n = [] \<longrightarrow>
       (\<forall>i. i + RATE_LIMIT_MAX_CALLS < length (admitted ts (fst (check_rate_limit_run ts n tr))) \<longrightarrow>
            admitted ts (fst (check_rate_limit_run ts n tr)) ! (i + RATE_LIMIT_MAX_CALLS)
            - admitted ts (fst (check_rate_limit_run ts n tr)) ! i \<ge> RATE_LIMIT_WINDOW))
   \<and> (sorted ts \<and> window_of tr n = [] \<longrightarrow>
       (\<forall>j. j < length ts \<longrightarrow>
          fst (check_rate_limit_run ts n tr) ! j =
            (length (prune (ts ! j)
                (admitted (take j ts) (take j (fst (check_rate_limit_run ts n tr)))))
             < RATE_LIMIT_MAX_CALLS)))"
proof (intro conjI allI impI)
  show "fst (check_rate_limit now n tr) = (length (prune now (window_of tr n)) < RATE_LIMIT_MAX_CALLS)"
    by (rule check_rate_limit_admits)
  show "window_of (snd (check_rate_limit now n tr)) n =
       (if fst (check_rate_limit now n tr) then prune now (window_of tr n) @ [now]
        else prune now (window_of tr n))"
    by (rule check_rate_limit_window)
next
  fix m assume "m \<noteq> n"
  then show "snd (check_rate_limit now n tr) m = tr m"
    by (rule check_rate_limit_frame)
next
  assume "(\<forall>s\<in>set (window_of tr n). \<forall>t\<in>set ts. \<not> t - s < RATE_LIMIT_WINDOW) \<and>
       (\<forall>s\<in>set ts. \<forall>t\<in>set ts. t - s < RATE_LIMIT_WINDOW)"
  then show "fst (check_rate_limit_run ts n tr) = map (\<lambda>i. i < RATE_LIMIT_MAX_CALLS) [0..<length ts]"
    using run_from_stale by blast
next
  fix i
  let ?adm = "admitted ts (fst (check_rate_limit_run ts n tr))"
  assume a: "sorted ts \<and> window_of tr n = []" and i: "i + RATE_LIMIT_MAX_CALLS < length ?adm"
  have sp: "spaced ([] @ ?adm)"
    using a by (intro run_spaced) (simp_all add: spaced_Nil prune_def)
  have "sorted ?adm"
    using a by (simp add: sorted_admitted)
  with sp i show "RATE_LIMIT_WINDOW \<le> ?adm ! (i + RATE_LIMIT_MAX_CALLS) - ?adm ! i"
    by (intro spaced_gap) simp_all
next
  fix j
  assume a: "sorted ts \<and> window_of tr n = []" and j: "j < length ts"
  have "fst (check_rate_limit_run ts n tr) ! j =
     (length (prune (ts ! j)
                ([] @ admitted (take j ts) (take j (fst (check_rate_limit_run ts n tr)))))
      < RATE_LIMIT_MAX_CALLS)"
    using a j by (intro run_sliding) (simp_all add: prune_def)
  then show "fst (check_rate_limit_run ts n tr) ! j =
            (length (prune (ts ! j)
                (admitted (take j ts) (take j (fst (check_rate_limit_run ts n tr)))))
             < RATE_LIMIT_MAX_CALLS)"
    by simp
qed

text \<open>
  Claim C8. A get of a key before the time to live of its entry has elapsed
  returns the payload that was put, and leaves the cache as it is; a get at
  or after that moment returns a miss and deletes the entry, so that every
  later get of the key misses too.
\<close>

theorem cache_roundtrip_and_lazy_expiry:
  "(now' - now < CACHE_TTL_SECONDS \<longrightarrow>
      get_cached_result now' k (set_cached_result now k p c) = (Some p, set_cached_result now k p c))
   \<and> (\<forall>e. c k = Some e \<and> now' - timestamp e \<ge> CACHE_TTL_SECONDS \<longrightarrow>
      get_cached_result now' k c = (None, c(k := None))
      \<and> snd (get_cached_result now' k c) k = None
      \<and> fst (get_cached_result now'' k (snd (get_cached_result now' k c))) = None)"
  by (auto simp: get_cached_result_def set_cached_result_def)


theorem rate_limiter_sliding_window_witness:
  "fst (check_rate_limit_run [0, 1, 2, 3, 4, 5, 6, 7, 8, 9, 10] ''community_search'' Map.empty)
     = [True, True, True, True, True, True, True, True, True, True, False]
   \<and> admitted [0, 1, 2, 3, 4, 5, 6, 7, 8, 9, 30, 60]
       (fst (check_rate_limit_run [0, 1, 2, 3, 4, 5, 6, 7, 8, 9, 30, 60] ''community_search'' Map.empty))
     = [0, 1, 2, 3, 4, 5, 6, 7, 8, 9, 60]
   \<and> RATE_LIMIT_WINDOW \<le>
       admitted [0, 1, 2, 3, 4, 5, 6, 7, 8, 9, 30, 60]
         (fst (check_rate_limit_run [0, 1, 2, 3, 4, 5, 6, 7, 8, 9, 30, 60] ''community_search'' Map.empty))
         ! (0 + RATE_LIMIT_MAX_CALLS)
       - admitted [0, 1, 2, 3, 4, 5, 6, 7, 8, 9, 30, 60]
         (fst (check_rate_limit_run [0, 1, 2, 3, 4, 5, 6, 7, 8, 9, 30, 60] ''community_search'' Map.empty))
         ! 0"
proof -
  let ?ts = "[0, 1, 2, 3, 4, 5, 6, 7, 8, 9, 10] :: real list"
  have h: "(\<forall>s\<in>set (window_of Map.empty ''community_search''). \<forall>t\<in>set ?ts. \<not> t - s < RATE_LIMIT_WINDOW) \<and>
           (\<forall>s\<in>set ?ts. \<forall>t\<in>set ?ts. t - s < RATE_LIMIT_WINDOW)"
    by (simp add: window_of_def RATE_LIMIT_WINDOW_def)
  from rate_limiter_sliding_window [of 0 "''community_search''" Map.empty ?ts] h
  have "fst (check_rate_limit_run ?ts ''community_search'' Map.empty)
          = map (\<lambda>i. i < RATE_LIMIT_MAX_CALLS) [0..<length ?ts]"
    by blast
  then have first: "fst (check_rate_limit_run ?ts ''community_search'' Map.empty)
     = [True, True, True, True, True, True, True, True, True, True, False]"
    by (simp add: RATE_LIMIT_MAX_CALLS_def upt_rec)
  let ?ts2 = "[0, 1, 2, 3, 4, 5, 6, 7, 8, 9, 30, 60] :: real list"
  let ?adm = "admitted ?ts2 (fst (check_rate_limit_run ?ts2 ''community_search'' Map.empty))"
  have adm: "?adm = [0, 1, 2, 3, 4, 5, 6, 7, 8, 9, 60]"
    by (simp add: admitted_def check_rate_limit_def window_of_def prune_def Let_def
          RATE_LIMIT_WINDOW_def RATE_LIMIT_MAX_CALLS_def)
  have h2: "sorted ?ts2 \<and> window_of Map.empty ''community_search'' = []"
    by (simp add: window_of_def)
  have len: "0 + RATE_LIMIT_MAX_CALLS < length ?adm"
    unfolding adm by (simp add: RATE_LIMIT_MAX_CALLS_def)
  from rate_limiter_sliding_window [of 0 "''community_search''" Map.empty ?ts2] h2
  have "\<forall>i. i + RATE_LIMIT_MAX_CALLS < length ?adm \<longrightarrow>
            RATE_LIMIT_WINDOW \<le> ?adm ! (i + RATE_LIMIT_MAX_CALLS) - ?adm ! i"
    by blast
  with len have "RATE_LIMIT_WINDOW \<le> ?adm ! (0 + RATE_LIMIT_MAX_CALLS) - ?adm ! 0"
    by blast
  with first adm show ?thesis by blast
qed

theorem cache_roundtrip_and_lazy_expiry_witness:
  "get_cached_result 10 ''k'' (set_cached_result 0 ''k'' ''payload'' Map.empty)
     = (Some ''payload'', set_cached_result 0 ''k'' ''payload'' Map.empty)
   \<and> get_cached_result 3600 ''k'' (set_cached_result 0 ''k'' ''payload'' Map.empty)
     = (None, (set_cached_result 0 ''k'' ''payload'' Map.empty)(''k'' := None))"
proof -
  let ?c = "set_cached_result 0 ''k'' ''payload'' Map.empty"
  let ?e = "\<lparr>result = ''payload'', timestamp = 0\<rparr>"
  have h1: "(10::real) - 0 < CACHE_TTL_SECONDS" by (simp add: CACHE_TTL_SECONDS_def)
  have h2: "?c ''k'' = Some ?e \<and> 3600 - timestamp ?e \<ge> CACHE_TTL_SECONDS"
    by (simp add: set_cached_result_def CACHE_TTL_SECONDS_def)
  from cache_roundtrip_and_lazy_expiry [of 10 0 "''k''" "''payload''" Map.empty 0] h1
  have a: "get_cached_result 10 ''k'' ?c = (Some ''payload'', ?c)" by blast
  from cache_roundtrip_and_lazy_expiry [of 3600 0 "''k''" "''payload''" ?c 0] h2
  have b: "get_cached_result 3600 ''k'' ?c = (None, ?c(''k'' := None))" by blast
  from a b show ?thesis by simp
qed

section \<open>Properties of the validator\<close>

lemma starts_with_iff: "starts_with t s \<longleftrightarrow> (\<exists>post. s = t @ post)"
  by (induction t s rule: starts_with.induct) auto

lemma py_in_str_iff: "py_in_str t s \<longleftrightarrow> (\<exists>pre post. s = pre @ t @ post)"
proof (induction s)
  case Nil
  then show ?case by auto
next
  case (Cons c cs)
  have "(\<exists>pre post. c # cs = pre @ t @ post) \<longleftrightarrow>
        (\<exists>post. c # cs = t @ post) \<or> (\<exists>pre post. cs = pre @ t @ post)"
  proof
    assume "\<exists>pre post. c # cs = pre @ t @ post"
    then obtain pre post where e: "c # cs = pre @ t @ post" by blast
    show "(\<exists>post. c # cs = t @ post) \<or> (\<exists>pre post. cs = pre @ t @ post)"
    proof (cases pre)
      case Nil
      then show ?thesis using e by auto
    next
      case (Cons a pre')
      then have "cs = pre' @ t @ post" using e by simp
      then show ?thesis by blast
    qed
  next
    assume "(\<exists>post. c # cs = t @ post) \<or> (\<exists>pre post. cs = pre @ t @ post)"
    then show "\<exists>pre post. c # cs = pre @ t @ post"
    proof
      assume "\<exists>post. c # cs = t @ post"
      then obtain post where "c # cs = [] @ t @ post" by auto
      then show ?thesis by blast
    next
      assume "\<exists>pre post. cs = pre @ t @ post"
      then obtain pre post where "c # cs = (c # pre) @ t @ post" by auto
      then show ?thesis by blast
    qed
  qed
  then show ?case using Cons.IH by (simp add: starts_with_iff)
qed

lemma split_ws_word:
  "w \<in> set (split_ws cur s) \<Longrightarrow> \<exists>pre post. cur @ s = pre @ w @ post"
proof (induction s arbitrary: cur)
  case Nil
  then have "w = cur" by (auto split: if_splits)
  then have "cur @ [] = [] @ w @ []" by simp
  then show ?case by blast
next
  case (Cons c cs)
  show ?case
  proof (cases "py_isspace c")
    case False
    then have "w \<in> set (split_ws (cur @ [c]) cs)" using Cons.prems by simp
    from Cons.IH [OF this] show ?thesis by simp
  next
    case True
    then have "w = cur \<or> w \<in> set (split_ws [] cs)"
      using Cons.prems by (auto split: if_splits)
    then show ?thesis
    proof
      assume "w = cur"
      then have "cur @ c # cs = [] @ w @ (c # cs)" by simp
      then show ?thesis by blast
    next
      assume "w \<in> set (split_ws [] cs)"
      from Cons.IH [OF this] obtain pre post where "cs = pre @ w @ post" by auto
      then have "cur @ c # cs = (cur @ c # pre) @ w @ post" by simp
      then show ?thesis by blast
    qed
  qed
qed

lemma py_split_word: "w \<in> set (py_split s) \<Longrightarrow> py_in_str w s"
  using split_ws_word [of w "[]" s] by (simp add: py_split_def py_in_str_iff)

text \<open>
  Claim C7, as the code decides it. A topic is rejected exactly when, after
  trimming, it has at most two words and some term of the vagueness list
  occurs in the lower-cased topic as a substring. So a topic of at most two
  words one of which is a vague term is rejected, whatever its other word;
  a topic of three or more words is accepted; the accepted value is the
  trimmed topic, and the message of a rejection quotes the trimmed topic.
\<close>

theorem validator_rejects_short_topics_with_vague_substring:
  "((\<exists>msg. validate_topic_specificity v = Inl msg) \<longleftrightarrow>
      length (py_split (py_lower (py_strip v))) \<le> 2 \<and>
      (\<exists>term\<in>set vague_terms. \<exists>pre post. py_lower (py_strip v) = pre @ term @ post))
   \<and> (spec_topic_rejected v \<longrightarrow> validate_topic_specificity v = Inl (too_vague_message (py_strip v)))
   \<and> (length (py_split (py_lower (py_strip v))) > 2 \<longrightarrow>
        validate_topic_specificity v = Inr (py_strip v))
   \<and> (validate_topic_specificity v = Inr (py_strip v) \<or>
        validate_topic_specificity v = Inl (too_vague_message (py_strip v)))
   \<and> (validate_topic_specificity v = Inl msg \<longrightarrow>
        msg =
          ''Topic '' @ [CHR 0x27] @ py_strip v @ [CHR 0x27] @ '' is too vague. Be more specific! '' @
          ''Instead of 'settings', say 'GUI settings dialog with tabs and save/load buttons'. '' @
          ''Instead of 'performance', say 'reduce Docker image size with multi-stage builds'. '' @
          ''Include specific technologies, libraries, or patterns you're interested in.'')"
proof (intro conjI impI)
  show "(\<exists>msg. validate_topic_specificity v = Inl msg) \<longleftrightarrow>
      length (py_split (py_lower (py_strip v))) \<le> 2 \<and>
      (\<exists>term\<in>set vague_terms. \<exists>pre post. py_lower (py_strip v) = pre @ term @ post)"
    by (simp add: validate_topic_specificity_def Let_def list_ex_iff py_in_str_iff)
next
  assume r: "spec_topic_rejected v"
  let ?low = "py_lower (py_strip v)"
  from r have len: "length (py_split ?low) \<le> 2"
    by (simp add: spec_topic_rejected_def Let_def)
  from r obtain w where w: "w \<in> set (py_split ?low)" "w \<in> set vague_terms"
    by (auto simp: spec_topic_rejected_def Let_def list_ex_iff)
  then have "py_in_str w ?low" by (simp add: py_split_word)
  with w(2) have "list_ex (\<lambda>term. py_in_str term ?low) vague_terms"
    unfolding list_ex_iff by blast
  with len show "validate_topic_specificity v = Inl (too_vague_message (py_strip v))"
    by (simp add: validate_topic_specificity_def Let_def)
next
  assume "length (py_split (py_lower (py_strip v))) > 2"
  then show "validate_topic_specificity v = Inr (py_strip v)"
    by (simp add: validate_topic_specificity_def Let_def)
next
  show "validate_topic_specificity v = Inr (py_strip v) \<or>
        validate_topic_specificity v = Inl (too_vague_message (py_strip v))"
    by (simp add: validate_topic_specificity_def Let_def)
next
  assume "validate_topic_specificity v = Inl msg"
  then show "msg =
          ''Topic '' @ [CHR 0x27] @ py_strip v @ [CHR 0x27] @ '' is too vague. Be more specific! '' @
          ''Instead of 'settings', say 'GUI settings dialog with tabs and save/load buttons'. '' @
          ''Instead of 'performance', say 'reduce Docker image size with multi-stage builds'. '' @
          ''Include specific technologies, libraries, or patterns you're interested in.''"
    by (simp add: validate_topic_specificity_def Let_def too_vague_message_def split: if_splits)
qed

lemma lower_redis: "py_lower ''Redis configuration'' = ''redis configuration''"
  by (simp add: py_lower_def py_lower_char_def upper_chars_def lower_chars_def)

lemma strip_redis: "py_strip ''Redis configuration'' = ''Redis configuration''"
  by (simp add: py_strip_def py_isspace_def)

lemma split_redis: "py_split ''redis configuration'' = [''redis'', ''configuration'']"
  by (simp add: py_split_def py_isspace_def)

lemma vague_redis: "list_ex (\<lambda>term. py_in_str term ''redis configuration'') vague_terms"
  by (simp add: vague_terms_def)

lemma redis_not_vague: "\<not> list_ex (\<lambda>term. py_in_str term ''redis'') vague_terms"
  by (simp add: vague_terms_def)


theorem validator_rejects_short_topics_with_vague_substring_witness:
  "spec_topic_rejected ''Redis configuration''
   \<and> validate_topic_specificity ''Redis configuration'' = Inl (too_vague_message ''Redis configuration'')
   \<and> too_vague_message ''Redis configuration'' =
       ''Topic 'Redis configuration' is too vague. Be more specific! '' @
       ''Instead of 'settings', say 'GUI settings dialog with tabs and save/load buttons'. '' @
       ''Instead of 'performance', say 'reduce Docker image size with multi-stage builds'. '' @
       ''Include specific technologies, libraries, or patterns you're interested in.''
   \<and> length (py_split (py_lower (py_strip ''FastAPI background task queue with Redis''))) > 2
   \<and> validate_topic_specificity ''FastAPI background task queue with Redis''
       = Inr ''FastAPI background task queue with Redis''"
proof -
  have h1: "spec_topic_rejected ''Redis configuration''"
    by (simp add: spec_topic_rejected_def Let_def strip_redis lower_redis split_redis vague_terms_def)
  have s2: "py_strip ''FastAPI background task queue with Redis''
              = ''FastAPI background task queue with Redis''"
    by (simp add: py_strip_def py_isspace_def)
  have h2: "length (py_split (py_lower (py_strip ''FastAPI background task queue with Redis''))) > 2"
    by (simp add: s2 py_split_def py_isspace_def py_lower_def py_lower_char_def
          upper_chars_def lower_chars_def)
  from validator_rejects_short_topics_with_vague_substring [of "''Redis configuration''"] h1
  have a: "validate_topic_specificity ''Redis configuration''
             = Inl (too_vague_message (py_strip ''Redis configuration''))"
    by blast
  from validator_rejects_short_topics_with_vague_substring
         [of "''Redis configuration''" "too_vague_message (py_strip ''Redis configuration'')"] a
  have m: "too_vague_message (py_strip ''Redis configuration'') =
       ''Topic '' @ [CHR 0x27] @ py_strip ''Redis configuration'' @ [CHR 0x27] @
          '' is too vague. Be more specific! '' @
       ''Instead of 'settings', say 'GUI settings dialog with tabs and save/load buttons'. '' @
       ''Instead of 'performance', say 'reduce Docker image size with multi-stage builds'. '' @
       ''Include specific technologies, libraries, or patterns you're interested in.''"
    by blast
  from validator_rejects_short_topics_with_vague_substring
         [of "''FastAPI background task queue with Redis''"] h2
  have b: "validate_topic_specificity ''FastAPI background task queue with Redis''
             = Inr (py_strip ''FastAPI background task queue with Redis'')"
    by blast
  from m have m': "too_vague_message ''Redis configuration'' =
       ''Topic 'Redis configuration' is too vague. Be more specific! '' @
       ''Instead of 'settings', say 'GUI settings dialog with tabs and save/load buttons'. '' @
       ''Instead of 'performance', say 'reduce Docker image size with multi-stage builds'. '' @
       ''Include specific technologies, libraries, or patterns you're interested in.''"
    by (simp add: strip_redis)
  from a b have "validate_topic_specificity ''Redis configuration''
                   = Inl (too_vague_message ''Redis configuration'')"
    and "validate_topic_specificity ''FastAPI background task queue with Redis''
           = Inr ''FastAPI background task queue with Redis''"
    by (simp_all add: strip_redis s2)
  with h1 h2 m' show ?thesis by blast
qed

text \<open>
  The claim as the specification words it fails on the code: a topic of 19
  characters with the specific word ``Redis'' is rejected, and so is a topic
  neither of whose words is a term of the list.
\<close>

theorem validator_counterexample:
  "length ''Redis configuration'' \<ge> 10
   \<and> py_split (py_lower (py_strip ''Redis configuration'')) = [''redis'', ''configuration'']
   \<and> ''redis'' \<notin> set vague_terms
   \<and> validate_topic_specificity ''Redis configuration''
       = Inl (too_vague_message ''Redis configuration'')
   \<and> py_split (py_lower (py_strip ''reconfigure widgets'')) = [''reconfigure'', ''widgets'']
   \<and> ''reconfigure'' \<notin> set vague_terms \<and> ''widgets'' \<notin> set vague_terms
   \<and> \<not> spec_topic_rejected ''reconfigure widgets''
   \<and> validate_topic_specificity ''reconfigure widgets''
       = Inl (too_vague_message ''reconfigure widgets'')"
proof -
  have s: "py_strip ''reconfigure widgets'' = ''reconfigure widgets''"
    by (simp add: py_strip_def py_isspace_def)
  have l: "py_lower ''reconfigure widgets'' = ''reconfigure widgets''"
    by (simp add: py_lower_def py_lower_char_def upper_chars_def lower_chars_def)
  have w: "py_split ''reconfigure widgets'' = [''reconfigure'', ''widgets'']"
    by (simp add: py_split_def py_isspace_def)
  have v: "list_ex (\<lambda>term. py_in_str term ''reconfigure widgets'') vague_terms"
    by (simp add: vague_terms_def)
  have n: "''reconfigure'' \<notin> set vague_terms \<and> ''widgets'' \<notin> set vague_terms
           \<and> ''redis'' \<notin> set vague_terms"
    by (simp add: vague_terms_def)
  have a: "validate_topic_specificity ''Redis configuration''
       = Inl (too_vague_message ''Redis configuration'')"
    using vague_redis
    by (simp add: validate_topic_specificity_def Let_def strip_redis lower_redis split_redis)
  have b: "validate_topic_specificity ''reconfigure widgets''
       = Inl (too_vague_message ''reconfigure widgets'')"
    using v by (simp add: validate_topic_specificity_def Let_def s l w)
  have c: "\<not> spec_topic_rejected ''reconfigure widgets''"
    using n by (simp add: spec_topic_rejected_def Let_def s l w)
  show ?thesis
    using a b c n by (simp add: strip_redis lower_redis split_redis s l w)
qed

section \<open>Properties of the aggregator\<close>

text \<open>
  Claim C6. The aggregation never raises, and the list it holds for a backend
  is the list that backend's coroutine made of its own response, or the empty
  list when its request failed or timed out, when the extraction raised on the
  response, or when the task was cancelled, whatever the other three did.
  With three backends failing and one returning two results, that source
  holds the two results and the three others are empty; four responses that
  are not objects give four empty lists.
\<close>

theorem aggregate_isolates_backends:
  "aggregate_search_results R so gh rd hn =
     Inr \<lparr>stackoverflow =
            (case so of
               Responds d \<Rightarrow> (case stackoverflow_results d of Inr rs \<Rightarrow> rs | Inl e \<Rightarrow> [])
             | Fails e \<Rightarrow> [] | Cancelled e \<Rightarrow> []),
          github =
            (case gh of
               Responds d \<Rightarrow> (case github_results d of Inr rs \<Rightarrow> rs | Inl e \<Rightarrow> [])
             | Fails e \<Rightarrow> [] | Cancelled e \<Rightarrow> []),
          reddit =
            (case rd of
               Responds d \<Rightarrow> (case reddit_results R d of Inr rs \<Rightarrow> rs | Inl e \<Rightarrow> [])
             | Fails e \<Rightarrow> [] | Cancelled e \<Rightarrow> []),
          hackernews =
            (case hn of
               Responds d \<Rightarrow> (case hackernews_results R d of Inr rs \<Rightarrow> rs | Inl e \<Rightarrow> [])
             | Fails e \<Rightarrow> [] | Cancelled e \<Rightarrow> [])\<rparr>
   \<and> (stackoverflow_results d = Inr [a, b] \<longrightarrow>
        aggregate_search_results R (Responds d) (Fails e1) (Fails e2) (Fails e3) =
          Inr \<lparr>stackoverflow = [a, b], github = [], reddit = [], hackernews = []\<rparr>)
   \<and> (github_results d = Inr [a, b] \<longrightarrow>
        aggregate_search_results R (Fails e1) (Responds d) (Fails e2) (Fails e3) =
          Inr \<lparr>stackoverflow = [], github = [a, b], reddit = [], hackernews = []\<rparr>)
   \<and> (reddit_results R d = Inr [a, b] \<longrightarrow>
        aggregate_search_results R (Fails e1) (Fails e2) (Responds d) (Fails e3) =
          Inr \<lparr>stackoverflow = [], github = [], reddit = [a, b], hackernews = []\<rparr>)
   \<and> (hackernews_results R d = Inr [a, b] \<longrightarrow>
        aggregate_search_results R (Fails e1) (Fails e2) (Fails e3) (Responds d) =
          Inr \<lparr>stackoverflow = [], github = [], reddit = [], hackernews = [a, b]\<rparr>)
   \<and> aggregate_search_results R (Responds (JArr xs)) (Responds (JStr s)) (Responds JNull)
        (Responds (JInt n)) =
          Inr \<lparr>stackoverflow = [], github = [], reddit = [], hackernews = []\<rparr>"
proof -
  note defs = aggregate_search_results_def gather_def try_bind_def list_or_empty_def
    search_stackoverflow_def search_github_def search_reddit_def search_hackernews_def
  have shape: "aggregate_search_results R so gh rd hn =
     Inr \<lparr>stackoverflow =
            (case so of
               Responds d \<Rightarrow> (case stackoverflow_results d of Inr rs \<Rightarrow> rs | Inl e \<Rightarrow> [])
             | Fails e \<Rightarrow> [] | Cancelled e \<Rightarrow> []),
          github =
            (case gh of
               Responds d \<Rightarrow> (case github_results d of Inr rs \<Rightarrow> rs | Inl e \<Rightarrow> [])
             | Fails e \<Rightarrow> [] | Cancelled e \<Rightarrow> []),
          reddit =
            (case rd of
               Responds d \<Rightarrow> (case reddit_results R d of Inr rs \<Rightarrow> rs | Inl e \<Rightarrow> [])
             | Fails e \<Rightarrow> [] | Cancelled e \<Rightarrow> []),
          hackernews =
            (case hn of
               Responds d \<Rightarrow> (case hackernews_results R d of Inr rs \<Rightarrow> rs | Inl e \<Rightarrow> [])
             | Fails e \<Rightarrow> [] | Cancelled e \<Rightarrow> [])\<rparr>"
    by (simp add: defs split: http_run.split sum.split)
  have not_objects: "aggregate_search_results R (Responds (JArr xs)) (Responds (JStr s))
        (Responds JNull) (Responds (JInt n)) =
          Inr \<lparr>stackoverflow = [], github = [], reddit = [], hackernews = []\<rparr>"
    by (simp add: defs stackoverflow_results_def github_results_def reddit_results_def
          hackernews_results_def)
  show ?thesis
    using shape not_objects by (simp add: defs)
qed

lemma demo_github_results:
  "github_results
     (JObj [(''total_count'', JInt 2),
            (''items'',
             JArr [JObj [(''title'', JStr ''Worker crashes under load''),
                         (''html_url'', JStr ''https://github.com/celery/celery/issues/1''),
                         (''state'', JStr ''open''), (''comments'', JInt 4),
                         (''body'', JNull)],
                   JObj [(''title'', JStr ''Retry policy is ignored''),
                         (''html_url'', JStr ''https://github.com/celery/celery/issues/2''),
                         (''state'', JStr ''closed''), (''comments'', JInt 9),
                         (''body'', JStr ''Steps to reproduce'')]])])
   = Inr [JObj [(''title'', JStr ''Worker crashes under load''),
                (''url'', JStr ''https://github.com/celery/celery/issues/1''),
                (''state'', JStr ''open''), (''comments'', JInt 4), (''snippet'', JStr [])],
          JObj [(''title'', JStr ''Retry policy is ignored''),
                (''url'', JStr ''https://github.com/celery/celery/issues/2''),
                (''state'', JStr ''closed''), (''comments'', JInt 9),
                (''snippet'', JStr ''Steps to reproduce'')]]"
  by (simp add: github_results_def github_result_def try_bind_def)

theorem aggregate_isolates_backends_witness:
  "aggregate_search_results demo_runtime
     (Fails (External ''timed out''))
     (Responds
        (JObj [(''total_count'', JInt 2),
               (''items'',
                JArr [JObj [(''title'', JStr ''Worker crashes under load''),
                            (''html_url'', JStr ''https://github.com/celery/celery/issues/1''),
                            (''state'', JStr ''open''), (''comments'', JInt 4),
                            (''body'', JNull)],
                      JObj [(''title'', JStr ''Retry policy is ignored''),
                            (''html_url'', JStr ''https://github.com/celery/celery/issues/2''),
                            (''state'', JStr ''closed''), (''comments'', JInt 9),
                            (''body'', JStr ''Steps to reproduce'')]])]))
     (Fails (External ''503 Service Unavailable''))
     (Fails (External ''Expecting value: line 1 column 1 (char 0)'')) =
     Inr \<lparr>stackoverflow = [],
          github =
            [JObj [(''title'', JStr ''Worker crashes under load''),
                   (''url'', JStr ''https://github.com/celery/celery/issues/1''),
                   (''state'', JStr ''open''), (''comments'', JInt 4), (''snippet'', JStr [])],
             JObj [(''title'', JStr ''Retry policy is ignored''),
                   (''url'', JStr ''https://github.com/celery/celery/issues/2''),
                   (''state'', JStr ''closed''), (''comments'', JInt 9),
                   (''snippet'', JStr ''Steps to reproduce'')]],
          reddit = [], hackernews = []\<rparr>"
  using aggregate_isolates_backends
          [of demo_runtime _ _ _ _ _ _ _ "External ''timed out''"
              "External ''503 Service Unavailable''"
              "External ''Expecting value: line 1 column 1 (char 0)''"]
        demo_github_results
  by blast

section \<open>Properties of community\_search\<close>

lemma community_search_rate_limited:
  assumes "length (cs_window env g) \<ge> RATE_LIMIT_MAX_CALLS"
  shows "community_search R p env g =
           (rate_limit_payload R,
            g\<lparr>tracker_of := (tracker_of g)(''community_search'' \<mapsto> cs_window env g)\<rparr>, [])"
  using assms by (simp add: community_search_def check_rate_limit_def Let_def cs_window_def)

lemma community_search_hit:
  assumes "length (cs_window env g) < RATE_LIMIT_MAX_CALLS"
    and "cache_of g (community_search_cache_key R p) = Some e"
    and "lookup_time env - timestamp e < CACHE_TTL_SECONDS"
    and "result e \<noteq> []"
  shows "community_search R p env g =
           (result e,
            \<lparr>cache_of = cache_of g,
             tracker_of = (tracker_of g)(''community_search'' \<mapsto> cs_window env g @ [rate_time env])\<rparr>,
            [])"
  using assms
  by (simp add: community_search_def check_rate_limit_def Let_def cs_window_def
        get_cached_result_def)

lemma community_search_miss:
  assumes "length (cs_window env g) < RATE_LIMIT_MAX_CALLS"
    and "get_cached_result (lookup_time env) (community_search_cache_key R p) (cache_of g)
           = (None, c0)"
    and "retry_loop R p (community_search_cache_key R p) (attempt_envs env) 0 c0
           = (res, c', evs)"
  shows "community_search R p env g =
           (res,
            \<lparr>cache_of = c',
             tracker_of = (tracker_of g)(''community_search'' \<mapsto> cs_window env g @ [rate_time env])\<rparr>,
            evs)"
  using assms
  by (simp add: community_search_def check_rate_limit_def Let_def cs_window_def)

lemma community_search_tracker:
  "tracker_of (fst (snd (community_search R p env g))) =
     snd (check_rate_limit (rate_time env) ''community_search'' (tracker_of g))"
  by (simp add: community_search_def check_rate_limit_def Let_def split_beta
      split: option.split prod.split)

lemma retry_loop_returns:
  assumes "attempt < MAX_RETRIES"
    and "run_attempt R p k (envs attempt) attempt c = (evs, Inr (res, c'))"
  shows "retry_loop R p k envs attempt c = (res, c', evs)"
  using assms by (subst retry_loop.simps) simp

lemma retry_loop_retries:
  assumes "Suc attempt < MAX_RETRIES"
    and "run_attempt R p k (envs attempt) attempt c = (evs, Inl e)"
  shows "retry_loop R p k envs attempt c =
           (case retry_loop R p k envs (Suc attempt) c of
              (res, c', evs') \<Rightarrow> (res, c', evs @ [Slept (2 ^ attempt)] @ evs'))"
  using assms by (subst retry_loop.simps) (auto simp: MAX_RETRIES_def)

lemma retry_loop_gives_up:
  assumes "Suc attempt = MAX_RETRIES"
    and "run_attempt R p k (envs attempt) attempt c = (evs, Inl e)"
  shows "retry_loop R p k envs attempt c = (failed_payload R e, c, evs)"
  using assms by (subst retry_loop.simps) (auto simp: MAX_RETRIES_def)

lemma run_attempt_no_results:
  assumes "attempt_search R p ae = Inr sr"
    and "total_results_of sr = 0"
  shows "run_attempt R p k ae i c =
           ([Searched i],
            Inr (no_results_payload R p,
                 set_cached_result (store_time ae) k (no_results_payload R p) c))"
  using assms by (simp add: run_attempt_def Let_def)

lemma run_attempt_rendered:
  assumes "attempt_search R p ae = Inr sr"
    and "total_results_of sr > 0"
    and "render_result R p (synthesize_with_llm R (getenv ae) (provider_call ae)) sr
           (total_results_of sr) = Inr res"
  shows "run_attempt R p k ae i c =
           ([Searched i, Synthesized i],
            Inr (res, set_cached_result (store_time ae) k res c))"
  using assms by (simp add: run_attempt_def Let_def)

lemma run_attempt_raised:
  assumes "attempt_search R p ae = Inr sr"
    and "total_results_of sr > 0"
    and "render_result R p (synthesize_with_llm R (getenv ae) (provider_call ae)) sr
           (total_results_of sr) = Inl e"
  shows "run_attempt R p k ae i c = ([Searched i, Synthesized i], Inl e)"
  using assms by (simp add: run_attempt_def Let_def)

lemma demo_attempt_search:
  "attempt_search R p (demo_attempt (Responds demo_response) reply) =
     Inr \<lparr>stackoverflow = [demo_hit], github = [], reddit = [], hackernews = []\<rparr>"
  by (simp add: attempt_search_def demo_attempt_def aggregate_search_results_def gather_def
        try_bind_def list_or_empty_def search_stackoverflow_def search_github_def
        search_reddit_def search_hackernews_def stackoverflow_results_def
        stackoverflow_result_def reddit_results_def hackernews_results_def
        demo_response_def demo_hit_def)

lemma demo_attempt_search_empty:
  "attempt_search R p (demo_attempt (Responds (JObj [])) reply) =
     Inr \<lparr>stackoverflow = [], github = [], reddit = [], hackernews = []\<rparr>"
  by (simp add: attempt_search_def demo_attempt_def aggregate_search_results_def gather_def
        try_bind_def list_or_empty_def search_stackoverflow_def search_github_def
        search_reddit_def search_hackernews_def stackoverflow_results_def
        reddit_results_def hackernews_results_def)

lemma fresh_window: "cs_window (demo_call ae) fresh_globals = []"
  by (simp add: cs_window_def demo_call_def fresh_globals_def window_of_def prune_def)

lemma fresh_lookup:
  "get_cached_result t k (cache_of fresh_globals) = (None, Map.empty)"
  by (simp add: get_cached_result_def fresh_globals_def)

text \<open>
  The three error payloads of \<^verbatim>\<open>community_search\<close>, as the dict literals
  that the code hands to \<^verbatim>\<open>json.dumps(..., indent=2)\<close>.
\<close>

lemma rate_limit_payload_eq:
  "rate_limit_payload R =
     json_dumps_indent R
       (JObj [(''error'',
               JStr ''Rate limit exceeded. Maximum 10 requests per minute. Please wait and try again.'')])"
  by (simp add: rate_limit_payload_def)

lemma no_results_payload_eq:
  "no_results_payload R p =
     json_dumps_indent R
       (JObj [(''error'',
               JStr (''No results found for '' @ [CHR 0x22] @ topic p @ [CHR 0x22] @ '' in '' @
                     language p @ ''. Try different search terms or a more common topic.'')),
              (''findings'', JArr [])])"
  by (simp add: no_results_payload_def error_dict_def)

lemma failed_payload_eq:
  "failed_payload R e =
     json_dumps_indent R
       (JObj [(''error'', JStr (''Search failed after 3 attempts: '' @ exn_str R e)),
              (''findings'', JArr [])])"
  by (simp add: failed_payload_def error_dict_def MAX_RETRIES_def dec.simps)

lemma demo_input_fields:
  "topic demo_input = ''FastAPI background task queue with Redis''"
  "language demo_input = ''Python''"
  by (simp_all add: demo_input_def)

text \<open>
  Claim C4. An attempt whose four backends found nothing in total does not
  synthesize: it returns the ``no results'' payload and writes it to the
  cache, the retry loop returns with it, and so does the call; a get of the
  same key before the time to live has elapsed returns that payload. The
  payload is what \<^verbatim>\<open>json.dumps(..., indent=2)\<close> prints of the dict whose
  \<^verbatim>\<open>error\<close> is ``No results found for'' the quoted topic ``in'' the
  language, followed by the advice to try other search terms, and whose
  \<^verbatim>\<open>findings\<close> are the empty list.
\<close>

theorem zero_results_short_circuit_and_cache:
  "(let payload =
          json_dumps_indent R
            (JObj [(''error'',
                    JStr (''No results found for '' @ [CHR 0x22] @ topic p @ [CHR 0x22] @ '' in '' @
                          language p @ ''. Try different search terms or a more common topic.'')),
                   (''findings'', JArr [])])
    in
   (attempt_search R p ae = Inr sr \<and> total_results_of sr = 0 \<longrightarrow>
      run_attempt R p k ae i c =
        ([Searched i],
         Inr (payload, set_cached_result (store_time ae) k payload c)))
   \<and> (i < MAX_RETRIES \<and> attempt_search R p (envs i) = Inr sr \<and>
       total_results_of sr = 0 \<longrightarrow>
      retry_loop R p k envs i c =
        (payload,
         set_cached_result (store_time (envs i)) k payload c,
         [Searched i]))
   \<and> (length (cs_window env g) < RATE_LIMIT_MAX_CALLS \<and>
       get_cached_result (lookup_time env) (community_search_cache_key R p) (cache_of g) = (None, c0) \<and>
       attempt_search R p (attempt_envs env 0) = Inr sr \<and>
       total_results_of sr = 0 \<longrightarrow>
      community_search R p env g =
        (payload,
         \<lparr>cache_of = set_cached_result (store_time (attempt_envs env 0))
                       (community_search_cache_key R p) payload c0,
          tracker_of = (tracker_of g)(''community_search'' \<mapsto> cs_window env g @ [rate_time env])\<rparr>,
         [Searched 0]))
   \<and> (now - t < CACHE_TTL_SECONDS \<longrightarrow>
      fst (get_cached_result now k (set_cached_result t k payload c)) = Some payload))"
  unfolding Let_def no_results_payload_eq [symmetric]
proof (intro conjI impI)
  assume "attempt_search R p ae = Inr sr \<and> total_results_of sr = 0"
  then show "run_attempt R p k ae i c =
        ([Searched i],
         Inr (no_results_payload R p,
              set_cached_result (store_time ae) k (no_results_payload R p) c))"
    by (simp add: run_attempt_no_results)
next
  assume "i < MAX_RETRIES \<and> attempt_search R p (envs i) = Inr sr \<and>
       total_results_of sr = 0"
  then show "retry_loop R p k envs i c =
        (no_results_payload R p,
         set_cached_result (store_time (envs i)) k (no_results_payload R p) c,
         [Searched i])"
    by (intro retry_loop_returns) (simp_all add: run_attempt_no_results)
next
  assume a: "length (cs_window env g) < RATE_LIMIT_MAX_CALLS \<and>
       get_cached_result (lookup_time env) (community_search_cache_key R p) (cache_of g) = (None, c0) \<and>
       attempt_search R p (attempt_envs env 0) = Inr sr \<and>
       total_results_of sr = 0"
  then have "retry_loop R p (community_search_cache_key R p) (attempt_envs env) 0 c0 =
        (no_results_payload R p,
         set_cached_result (store_time (attempt_envs env 0))
           (community_search_cache_key R p) (no_results_payload R p) c0,
         [Searched 0])"
    by (intro retry_loop_returns) (simp_all add: run_attempt_no_results MAX_RETRIES_def)
  with a show "community_search R p env g =
        (no_results_payload R p,
         \<lparr>cache_of = set_cached_result (store_time (attempt_envs env 0))
                       (community_search_cache_key R p) (no_results_payload R p) c0,
          tracker_of = (tracker_of g)(''community_search'' \<mapsto> cs_window env g @ [rate_time env])\<rparr>,
         [Searched 0])"
    by (intro community_search_miss) simp_all
next
  assume "now - t < CACHE_TTL_SECONDS"
  then show "fst (get_cached_result now k (set_cached_result t k (no_results_payload R p) c))
        = Some (no_results_payload R p)"
    by (simp add: get_cached_result_def set_cached_result_def)
qed

theorem zero_results_short_circuit_and_cache_witness:
  "community_search demo_runtime demo_input
     (demo_call (demo_attempt (Responds (JObj [])) (Inr JNull))) fresh_globals =
     (json_dumps_indent demo_runtime
        (JObj [(''error'',
                JStr (''No results found for '' @ [CHR 0x22] @
                      ''FastAPI background task queue with Redis'' @ [CHR 0x22] @
                      '' in Python. Try different search terms or a more common topic.'')),
               (''findings'', JArr [])]),
      \<lparr>cache_of = [community_search_cache_key demo_runtime demo_input \<mapsto>
                     \<lparr>result =
                        json_dumps_indent demo_runtime
                          (JObj [(''error'',
                                  JStr (''No results found for '' @ [CHR 0x22] @
                                        ''FastAPI background task queue with Redis'' @ [CHR 0x22] @
                                        '' in Python. Try different search terms or a more common topic.'')),
                                 (''findings'', JArr [])]),
                      timestamp = 5\<rparr>],
       tracker_of = [''community_search'' \<mapsto> [0]]\<rparr>,
      [Searched 0])
   \<and> fst (get_cached_result 3604 (community_search_cache_key demo_runtime demo_input)
            (set_cached_result 5 (community_search_cache_key demo_runtime demo_input)
               (json_dumps_indent demo_runtime
                  (JObj [(''error'',
                          JStr (''No results found for '' @ [CHR 0x22] @
                                ''FastAPI background task queue with Redis'' @ [CHR 0x22] @
                                '' in Python. Try different search terms or a more common topic.'')),
                         (''findings'', JArr [])]))
               Map.empty))
     = Some (json_dumps_indent demo_runtime
               (JObj [(''error'',
                       JStr (''No results found for '' @ [CHR 0x22] @
                             ''FastAPI background task queue with Redis'' @ [CHR 0x22] @
                             '' in Python. Try different search terms or a more common topic.'')),
                      (''findings'', JArr [])]))"
proof -
  let ?ae = "demo_attempt (Responds (JObj [])) (Inr JNull)"
  let ?env = "demo_call ?ae"
  let ?sr = "\<lparr>stackoverflow = [], github = [], reddit = [], hackernews = []\<rparr>"
  let ?k = "community_search_cache_key demo_runtime demo_input"
  have h: "length (cs_window ?env fresh_globals) < RATE_LIMIT_MAX_CALLS \<and>
       get_cached_result (lookup_time ?env) ?k (cache_of fresh_globals) = (None, Map.empty) \<and>
       attempt_search demo_runtime demo_input (attempt_envs ?env 0) = Inr ?sr \<and>
       total_results_of ?sr = 0"
  proof -
    have "length (cs_window ?env fresh_globals) < RATE_LIMIT_MAX_CALLS"
      by (simp add: fresh_window RATE_LIMIT_MAX_CALLS_def)
    moreover have "attempt_search demo_runtime demo_input (attempt_envs ?env 0) = Inr ?sr"
      by (simp add: demo_call_def demo_attempt_search_empty)
    moreover have "total_results_of ?sr = 0"
      by (simp add: total_results_of_def search_results_values_def)
    ultimately show ?thesis by (simp add: fresh_lookup)
  qed
  have t: "(3604::real) - 5 < CACHE_TTL_SECONDS" by (simp add: CACHE_TTL_SECONDS_def)
  let ?payload = "json_dumps_indent demo_runtime
            (JObj [(''error'',
                    JStr (''No results found for '' @ [CHR 0x22] @ topic demo_input @ [CHR 0x22] @
                          '' in '' @ language demo_input @
                          ''. Try different search terms or a more common topic.'')),
                   (''findings'', JArr [])])"
  note inst = zero_results_short_circuit_and_cache
               [of demo_runtime demo_input "attempt_envs ?env 0" ?sr ?k 0 Map.empty
                   "attempt_envs ?env" ?env fresh_globals Map.empty 3604 5, unfolded Let_def]
  from inst h have a: "community_search demo_runtime demo_input ?env fresh_globals =
        (?payload,
         \<lparr>cache_of = set_cached_result (store_time (attempt_envs ?env 0)) ?k ?payload Map.empty,
          tracker_of = (tracker_of fresh_globals)
             (''community_search'' \<mapsto> cs_window ?env fresh_globals @ [rate_time ?env])\<rparr>,
         [Searched 0])"
    by blast
  from inst t have b: "fst (get_cached_result 3604 ?k (set_cached_result 5 ?k ?payload Map.empty))
     = Some ?payload"
    by blast
  have st: "store_time (attempt_envs ?env 0) = 5" "rate_time ?env = 0"
    "tracker_of fresh_globals = Map.empty"
    by (simp_all add: demo_call_def demo_attempt_def fresh_globals_def)
  from a b show ?thesis
    by (simp add: fresh_window st set_cached_result_def demo_input_fields)
qed

lemma synthesize_demo:
  "synthesize_with_llm R (getenv (demo_attempt so reply)) (provider_call (demo_attempt so reply))
     = (case reply of Inr synthesis \<Rightarrow> synthesis
        | Inl e \<Rightarrow> error_dict (''LLM synthesis failed: '' @ exn_str R e))"
  by (simp add: synthesize_with_llm_def get_available_llm_provider_def demo_attempt_def
        key_usable_def py_strip_def py_isspace_def)

lemma render_not_a_dict:
  "render_result R p (JArr []) sr n = Inl (AttributeError (JArr []))"
  by (cases "response_format p")
     (simp_all add: render_result_def render_markdown_def json_response_def try_bind_def)

lemma demo_attempt_raises:
  "run_attempt R p k (demo_attempt (Responds demo_response) (Inr (JArr []))) i c
     = ([Searched i, Synthesized i], Inl (AttributeError (JArr [])))"
proof -
  let ?ae = "demo_attempt (Responds demo_response) (Inr (JArr []))"
  let ?sr = "\<lparr>stackoverflow = [demo_hit], github = [], reddit = [], hackernews = []\<rparr>"
  have s: "attempt_search R p ?ae = Inr ?sr" by (rule demo_attempt_search)
  have t: "total_results_of ?sr > 0"
    by (simp add: total_results_of_def search_results_values_def)
  have r: "render_result R p (synthesize_with_llm R (getenv ?ae) (provider_call ?ae)) ?sr
             (total_results_of ?sr) = Inl (AttributeError (JArr []))"
    by (simp add: synthesize_demo render_not_a_dict)
  from run_attempt_raised [OF s t r] show ?thesis .
qed

lemma run_attempt_events:
  "fst (run_attempt R p k ae i c) = [Searched i] \<or>
   fst (run_attempt R p k ae i c) = [Searched i, Synthesized i]"
  by (simp add: run_attempt_def Let_def split: sum.split)

lemma retry_loop_all_fail:
  assumes "run_attempt R p k (envs 0) 0 c = (evs0, Inl e0)"
    and "run_attempt R p k (envs 1) 1 c = (evs1, Inl e1)"
    and "run_attempt R p k (envs 2) 2 c = (evs2, Inl e2)"
  shows "retry_loop R p k envs 0 c =
           (failed_payload R e2, c, evs0 @ [Slept 1] @ evs1 @ [Slept 2] @ evs2)"
proof -
  have l2: "retry_loop R p k envs 2 c = (failed_payload R e2, c, evs2)"
    using assms(3) by (intro retry_loop_gives_up) (simp_all add: MAX_RETRIES_def)
  have l1: "retry_loop R p k envs 1 c = (failed_payload R e2, c, evs1 @ [Slept 2] @ evs2)"
    using retry_loop_retries [of 1 R p k envs c evs1 e1] assms(2) l2
    by (simp add: MAX_RETRIES_def numeral_2_eq_2)
  show ?thesis
    using retry_loop_retries [of 0 R p k envs c evs0 e0] assms(1) l1
    by (simp add: MAX_RETRIES_def)
qed

text \<open>
  Claim C9, as the code has it. An exception that leaves the body of an
  attempt is caught. While attempts remain the loop sleeps \<open>2 ^ attempt\<close>
  seconds and runs the next attempt, from the search on, on the cache as it
  was. When all three attempts raise, the call has slept 1 second and then 2
  seconds, returns the ``Search failed after 3 attempts'' payload with the
  text of the last exception and no findings, and leaves the cache as the
  lookup left it.
\<close>

theorem retry_with_backoff:
  "(Suc i < MAX_RETRIES \<and> run_attempt R p k (envs i) i c = (evs, Inl e) \<longrightarrow>
      retry_loop R p k envs i c =
        (case retry_loop R p k envs (Suc i) c of
           (res, c', evs') \<Rightarrow> (res, c', evs @ [Slept (2 ^ i)] @ evs')))
   \<and> (fst (run_attempt R p k (envs i) i c) = [Searched i] \<or>
       fst (run_attempt R p k (envs i) i c) = [Searched i, Synthesized i])
   \<and> (run_attempt R p k (envs 0) 0 c = (evs0, Inl e0) \<and>
       run_attempt R p k (envs 1) 1 c = (evs1, Inl e1) \<and>
       run_attempt R p k (envs 2) 2 c = (evs2, Inl e2) \<longrightarrow>
      retry_loop R p k envs 0 c =
        (json_dumps_indent R
           (JObj [(''error'', JStr (''Search failed after 3 attempts: '' @ exn_str R e2)),
                  (''findings'', JArr [])]), c, evs0 @ [Slept 1] @ evs1 @ [Slept 2] @ evs2))
   \<and> (length (cs_window env g) < RATE_LIMIT_MAX_CALLS \<and>
       get_cached_result (lookup_time env) (community_search_cache_key R p) (cache_of g) = (None, c0) \<and>
       run_attempt R p (community_search_cache_key R p) (attempt_envs env 0) 0 c0 = (evs0, Inl e0) \<and>
       run_attempt R p (community_search_cache_key R p) (attempt_envs env 1) 1 c0 = (evs1, Inl e1) \<and>
       run_attempt R p (community_search_cache_key R p) (attempt_envs env 2) 2 c0 = (evs2, Inl e2) \<longrightarrow>
      community_search R p env g =
        (json_dumps_indent R
           (JObj [(''error'', JStr (''Search failed after 3 attempts: '' @ exn_str R e2)),
                  (''findings'', JArr [])]),
         \<lparr>cache_of = c0,
          tracker_of = (tracker_of g)(''community_search'' \<mapsto> cs_window env g @ [rate_time env])\<rparr>,
         evs0 @ [Slept 1] @ evs1 @ [Slept 2] @ evs2))"
  unfolding failed_payload_eq [symmetric]
proof (intro conjI impI)
  assume "Suc i < MAX_RETRIES \<and> run_attempt R p k (envs i) i c = (evs, Inl e)"
  then show "retry_loop R p k envs i c =
        (case retry_loop R p k envs (Suc i) c of
           (res, c', evs') \<Rightarrow> (res, c', evs @ [Slept (2 ^ i)] @ evs'))"
    using retry_loop_retries by blast
next
  show "fst (run_attempt R p k (envs i) i c) = [Searched i] \<or>
       fst (run_attempt R p k (envs i) i c) = [Searched i, Synthesized i]"
    by (rule run_attempt_events)
next
  assume "run_attempt R p k (envs 0) 0 c = (evs0, Inl e0) \<and>
       run_attempt R p k (envs 1) 1 c = (evs1, Inl e1) \<and>
       run_attempt R p k (envs 2) 2 c = (evs2, Inl e2)"
  then show "retry_loop R p k envs 0 c =
        (failed_payload R e2, c, evs0 @ [Slept 1] @ evs1 @ [Slept 2] @ evs2)"
    using retry_loop_all_fail by blast
next
  let ?k = "community_search_cache_key R p"
  assume a: "length (cs_window env g) < RATE_LIMIT_MAX_CALLS \<and>
       get_cached_result (lookup_time env) ?k (cache_of g) = (None, c0) \<and>
       run_attempt R p ?k (attempt_envs env 0) 0 c0 = (evs0, Inl e0) \<and>
       run_attempt R p ?k (attempt_envs env 1) 1 c0 = (evs1, Inl e1) \<and>
       run_attempt R p ?k (attempt_envs env 2) 2 c0 = (evs2, Inl e2)"
  then have "retry_loop R p ?k (attempt_envs env) 0 c0 =
        (failed_payload R e2, c0, evs0 @ [Slept 1] @ evs1 @ [Slept 2] @ evs2)"
    using retry_loop_all_fail by blast
  with a show "community_search R p env g =
        (failed_payload R e2,
         \<lparr>cache_of = c0,
          tracker_of = (tracker_of g)(''community_search'' \<mapsto> cs_window env g @ [rate_time env])\<rparr>,
         evs0 @ [Slept 1] @ evs1 @ [Slept 2] @ evs2)"
    by (intro community_search_miss) simp_all
qed

text \<open>
  A provider that answers \<^verbatim>\<open>[]\<close> in every attempt: rendering raises
  three times, and the call sleeps twice.
\<close>

theorem retry_with_backoff_witness:
  "community_search demo_runtime demo_input
     (demo_call (demo_attempt (Responds demo_response) (Inr (JArr [])))) fresh_globals =
     (json_dumps_indent demo_runtime
        (JObj [(''error'', JStr ''Search failed after 3 attempts: error''),
               (''findings'', JArr [])]),
      \<lparr>cache_of = Map.empty, tracker_of = [''community_search'' \<mapsto> [0]]\<rparr>,
      [Searched 0, Synthesized 0, Slept 1, Searched 1, Synthesized 1, Slept 2,
       Searched 2, Synthesized 2])"
proof -
  let ?ae = "demo_attempt (Responds demo_response) (Inr (JArr []))"
  let ?env = "demo_call ?ae"
  let ?k = "community_search_cache_key demo_runtime demo_input"
  let ?e = "AttributeError (JArr [])"
  have ae: "attempt_envs ?env = (\<lambda>i. ?ae)" by (simp add: demo_call_def)
  have h: "length (cs_window ?env fresh_globals) < RATE_LIMIT_MAX_CALLS \<and>
       get_cached_result (lookup_time ?env) ?k (cache_of fresh_globals) = (None, Map.empty) \<and>
       run_attempt demo_runtime demo_input ?k (attempt_envs ?env 0) 0 Map.empty
         = ([Searched 0, Synthesized 0], Inl ?e) \<and>
       run_attempt demo_runtime demo_input ?k (attempt_envs ?env 1) 1 Map.empty
         = ([Searched 1, Synthesized 1], Inl ?e) \<and>
       run_attempt demo_runtime demo_input ?k (attempt_envs ?env 2) 2 Map.empty
         = ([Searched 2, Synthesized 2], Inl ?e)"
    by (simp add: fresh_window fresh_lookup RATE_LIMIT_MAX_CALLS_def ae demo_attempt_raises)
  have st: "rate_time ?env = 0" "tracker_of fresh_globals = Map.empty"
    by (simp_all add: demo_call_def fresh_globals_def)
  from retry_with_backoff
         [of 0 demo_runtime demo_input ?k "attempt_envs ?env" Map.empty
             "[Searched 0, Synthesized 0]" ?e
             "[Searched 0, Synthesized 0]" ?e "[Searched 1, Synthesized 1]" ?e
             "[Searched 2, Synthesized 2]" ?e ?env fresh_globals Map.empty] h
  have "community_search demo_runtime demo_input ?env fresh_globals =
        (json_dumps_indent demo_runtime
           (JObj [(''error'', JStr (''Search failed after 3 attempts: '' @ exn_str demo_runtime ?e)),
                  (''findings'', JArr [])]),
         \<lparr>cache_of = Map.empty,
          tracker_of = (tracker_of fresh_globals)
            (''community_search'' \<mapsto> cs_window ?env fresh_globals @ [rate_time ?env])\<rparr>,
         [Searched 0, Synthesized 0] @ [Slept 1] @ [Searched 1, Synthesized 1] @ [Slept 2]
           @ [Searched 2, Synthesized 2])"
    by blast
  then show ?thesis by (simp add: fresh_window st exn_str_def demo_runtime_def)
qed

text \<open>
  The claim's schedule of 1, 2 and 4 seconds fails on the code: in a call all
  of whose attempts raise, the sleeps are 1 and 2 seconds, and none of 4.
\<close>

theorem backoff_schedule_counterexample:
  "snd (snd (community_search demo_runtime demo_input
              (demo_call (demo_attempt (Responds demo_response) (Inr (JArr [JObj [(''title'', JStr ''Use Celery'')]])))) fresh_globals))
     = [Searched 0, Synthesized 0, Slept 1, Searched 1, Synthesized 1, Slept 2,
        Searched 2, Synthesized 2]
   \<and> Slept 4 \<notin> set (snd (snd (community_search demo_runtime demo_input
              (demo_call (demo_attempt (Responds demo_response) (Inr (JArr [JObj [(''title'', JStr ''Use Celery'')]])))) fresh_globals)))"
proof -
  let ?ae = "demo_attempt (Responds demo_response) (Inr (JArr [JObj [(''title'', JStr ''Use Celery'')]]))"
  let ?env = "demo_call ?ae"
  let ?k = "community_search_cache_key demo_runtime demo_input"
  let ?sr = "\<lparr>stackoverflow = [demo_hit], github = [], reddit = [], hackernews = []\<rparr>"
  let ?e = "AttributeError (JArr [JObj [(''title'', JStr ''Use Celery'')]])"
  have ae: "attempt_envs ?env = (\<lambda>i. ?ae)" by (simp add: demo_call_def)
  have s: "attempt_search demo_runtime demo_input ?ae = Inr ?sr" by (rule demo_attempt_search)
  have t: "total_results_of ?sr > 0"
    by (simp add: total_results_of_def search_results_values_def)
  have r: "render_result demo_runtime demo_input
             (synthesize_with_llm demo_runtime (getenv ?ae) (provider_call ?ae)) ?sr
             (total_results_of ?sr) = Inl ?e"
    by (simp add: synthesize_demo render_result_def render_markdown_def try_bind_def
          demo_input_def)
  have run: "run_attempt demo_runtime demo_input ?k ?ae i Map.empty
               = ([Searched i, Synthesized i], Inl ?e)" for i
    by (rule run_attempt_raised [OF s t r])
  have loop: "retry_loop demo_runtime demo_input ?k (attempt_envs ?env) 0 Map.empty =
        (failed_payload demo_runtime ?e, Map.empty,
         [Searched 0, Synthesized 0] @ [Slept 1] @ [Searched 1, Synthesized 1] @ [Slept 2]
           @ [Searched 2, Synthesized 2])"
    by (intro retry_loop_all_fail) (simp_all add: ae run)
  have "community_search demo_runtime demo_input ?env fresh_globals =
        (failed_payload demo_runtime ?e,
         \<lparr>cache_of = Map.empty,
          tracker_of = (tracker_of fresh_globals)
            (''community_search'' \<mapsto> cs_window ?env fresh_globals @ [rate_time ?env])\<rparr>,
         [Searched 0, Synthesized 0] @ [Slept 1] @ [Searched 1, Synthesized 1] @ [Slept 2]
           @ [Searched 2, Synthesized 2])"
    using loop
    by (intro community_search_miss)
       (simp_all add: fresh_window fresh_lookup RATE_LIMIT_MAX_CALLS_def)
  then show ?thesis by simp
qed


text \<open>
  Claim C10. A call whose admission check passes and whose key holds a fresh
  payload returns that payload, with the clock reading of the check appended
  to the window and the cache as it was and without any search or synthesis;
  a call that meets 10 live timestamps returns the rate limit payload, with
  the cache as it was, whatever the cache holds; and after every call the
  tracker is what the admission check made of it. The rate limit payload is
  what \<^verbatim>\<open>json.dumps(..., indent=2)\<close> prints of the dict whose only key
  \<^verbatim>\<open>error\<close> holds the ``Rate limit exceeded'' message.
\<close>

theorem cache_hit_consumes_rate_budget:
  "(length (cs_window env g) < RATE_LIMIT_MAX_CALLS \<and>
    cache_of g (community_search_cache_key R p) = Some e \<and>
    lookup_time env - timestamp e < CACHE_TTL_SECONDS \<and> result e \<noteq> [] \<longrightarrow>
      community_search R p env g =
        (result e,
         \<lparr>cache_of = cache_of g,
          tracker_of = (tracker_of g)(''community_search'' \<mapsto> cs_window env g @ [rate_time env])\<rparr>,
         []))
   \<and> (length (cs_window env g) \<ge> RATE_LIMIT_MAX_CALLS \<longrightarrow>
      community_search R p env g =
        (json_dumps_indent R
           (JObj [(''error'',
                   JStr ''Rate limit exceeded. Maximum 10 requests per minute. Please wait and try again.'')]),
         g\<lparr>tracker_of := (tracker_of g)(''community_search'' \<mapsto> cs_window env g)\<rparr>, []))
   \<and> tracker_of (fst (snd (community_search R p env g))) =
       snd (check_rate_limit (rate_time env) ''community_search'' (tracker_of g))"
  unfolding rate_limit_payload_eq [symmetric]
  using community_search_hit [of env g R p e] community_search_rate_limited [of env g R p]
    community_search_tracker [of R p env g]
  by blast

theorem cache_hit_consumes_rate_budget_witness:
  "community_search demo_runtime demo_input
     \<lparr>rate_time = 10, lookup_time = 11, attempt_envs = (\<lambda>i. demo_attempt (Responds (JObj [])) (Inr JNull))\<rparr>
     \<lparr>cache_of = [community_search_cache_key demo_runtime demo_input \<mapsto>
                    \<lparr>result = ''# cached'', timestamp = 9\<rparr>],
      tracker_of = [''community_search'' \<mapsto> [0, 1, 2, 3, 4, 5, 6, 7, 8]]\<rparr>
   = (''# cached'',
      \<lparr>cache_of = [community_search_cache_key demo_runtime demo_input \<mapsto>
                    \<lparr>result = ''# cached'', timestamp = 9\<rparr>],
       tracker_of = [''community_search'' \<mapsto> [0, 1, 2, 3, 4, 5, 6, 7, 8, 10]]\<rparr>,
      [])
   \<and> community_search demo_runtime demo_input
     \<lparr>rate_time = 12, lookup_time = 13, attempt_envs = (\<lambda>i. demo_attempt (Responds (JObj [])) (Inr JNull))\<rparr>
     \<lparr>cache_of = [community_search_cache_key demo_runtime demo_input \<mapsto>
                    \<lparr>result = ''# cached'', timestamp = 9\<rparr>],
      tracker_of = [''community_search'' \<mapsto> [0, 1, 2, 3, 4, 5, 6, 7, 8, 10]]\<rparr>
   = (json_dumps_indent demo_runtime
        (JObj [(''error'',
                JStr ''Rate limit exceeded. Maximum 10 requests per minute. Please wait and try again.'')]),
      \<lparr>cache_of = [community_search_cache_key demo_runtime demo_input \<mapsto>
                    \<lparr>result = ''# cached'', timestamp = 9\<rparr>],
       tracker_of = [''community_search'' \<mapsto> [0, 1, 2, 3, 4, 5, 6, 7, 8, 10]]\<rparr>,
      [])"
proof -
  let ?k = "community_search_cache_key demo_runtime demo_input"
  let ?e = "\<lparr>result = ''# cached'', timestamp = 9\<rparr>"
  let ?envs = "\<lambda>i::nat. demo_attempt (Responds (JObj [])) (Inr JNull)"
  let ?env1 = "\<lparr>rate_time = 10, lookup_time = 11, attempt_envs = ?envs\<rparr>"
  let ?env2 = "\<lparr>rate_time = 12, lookup_time = 13, attempt_envs = ?envs\<rparr>"
  let ?g1 = "\<lparr>cache_of = [?k \<mapsto> ?e],
              tracker_of = [''community_search'' \<mapsto> [0, 1, 2, 3, 4, 5, 6, 7, 8]]\<rparr>"
  let ?g2 = "\<lparr>cache_of = [?k \<mapsto> ?e],
              tracker_of = [''community_search'' \<mapsto> [0, 1, 2, 3, 4, 5, 6, 7, 8, 10]]\<rparr>"
  have w1: "cs_window ?env1 ?g1 = [0, 1, 2, 3, 4, 5, 6, 7, 8]"
    by (simp add: cs_window_def window_of_def prune_def RATE_LIMIT_WINDOW_def)
  have w2: "cs_window ?env2 ?g2 = [0, 1, 2, 3, 4, 5, 6, 7, 8, 10]"
    by (simp add: cs_window_def window_of_def prune_def RATE_LIMIT_WINDOW_def)
  have h1: "length (cs_window ?env1 ?g1) < RATE_LIMIT_MAX_CALLS \<and>
            cache_of ?g1 ?k = Some ?e \<and>
            lookup_time ?env1 - timestamp ?e < CACHE_TTL_SECONDS \<and> result ?e \<noteq> []"
    by (simp add: w1 RATE_LIMIT_MAX_CALLS_def CACHE_TTL_SECONDS_def)
  have h2: "length (cs_window ?env2 ?g2) \<ge> RATE_LIMIT_MAX_CALLS"
    by (simp add: w2 RATE_LIMIT_MAX_CALLS_def)
  from cache_hit_consumes_rate_budget [of ?env1 ?g1 demo_runtime demo_input ?e] h1
  have a: "community_search demo_runtime demo_input ?env1 ?g1 =
        (result ?e,
         \<lparr>cache_of = cache_of ?g1,
          tracker_of = (tracker_of ?g1)(''community_search'' \<mapsto> cs_window ?env1 ?g1 @ [rate_time ?env1])\<rparr>,
         [])"
    by blast
  from cache_hit_consumes_rate_budget [of ?env2 ?g2 demo_runtime demo_input ?e] h2
  have b: "community_search demo_runtime demo_input ?env2 ?g2 =
        (json_dumps_indent demo_runtime
        (JObj [(''error'',
                JStr ''Rate limit exceeded. Maximum 10 requests per minute. Please wait and try again.'')]),
         ?g2\<lparr>tracker_of := (tracker_of ?g2)(''community_search'' \<mapsto> cs_window ?env2 ?g2)\<rparr>, [])"
    by blast
  from a b show ?thesis by (simp add: w1 w2)
qed

text \<open>
  Claim C1 fails on the code: the key is the digest of the tool name and of
  the language, topic, goal and current setup only, so two requests that
  differ in the response format have the same key, and a request in one
  format is answered with the fresh payload that the other format left in the
  cache.
\<close>

theorem cache_key_ignores_response_format:
  "community_search_cache_key R (p\<lparr>response_format := f\<rparr>) = community_search_cache_key R p
   \<and> (length (cs_window env g) < RATE_LIMIT_MAX_CALLS \<and>
       cache_of g (community_search_cache_key R p) = Some e \<and>
       lookup_time env - timestamp e < CACHE_TTL_SECONDS \<and> result e \<noteq> [] \<longrightarrow>
      fst (community_search R (p\<lparr>response_format := f\<rparr>) env g) = result e)
   \<and> community_search_cache_key R p =
       md5_hexdigest R
         (''community_search:'' @
          json_dumps_sorted R
            (JObj [(''language'', JStr (language p)),
                   (''topic'', JStr (topic p)),
                   (''goal'', (case goal p of None \<Rightarrow> JNull | Some s \<Rightarrow> JStr s)),
                   (''current_setup'',
                      (case current_setup p of None \<Rightarrow> JNull | Some s \<Rightarrow> JStr s))]))"
proof (intro conjI impI)
  show k: "community_search_cache_key R (p\<lparr>response_format := f\<rparr>) = community_search_cache_key R p"
    by (simp add: community_search_cache_key_def)
  assume "length (cs_window env g) < RATE_LIMIT_MAX_CALLS \<and>
       cache_of g (community_search_cache_key R p) = Some e \<and>
       lookup_time env - timestamp e < CACHE_TTL_SECONDS \<and> result e \<noteq> []"
  then show "fst (community_search R (p\<lparr>response_format := f\<rparr>) env g) = result e"
    using community_search_hit [of env g R "p\<lparr>response_format := f\<rparr>" e] k by simp
next
  show "community_search_cache_key R p =
       md5_hexdigest R
         (''community_search:'' @
          json_dumps_sorted R
            (JObj [(''language'', JStr (language p)),
                   (''topic'', JStr (topic p)),
                   (''goal'', (case goal p of None \<Rightarrow> JNull | Some s \<Rightarrow> JStr s)),
                   (''current_setup'',
                      (case current_setup p of None \<Rightarrow> JNull | Some s \<Rightarrow> JStr s))]))"
    by (simp add: community_search_cache_key_def get_cache_key_def json_of_optional_def)
qed

section \<open>Properties of synthesis and rendering\<close>

lemma find_in_set: "find P xs = Some x \<Longrightarrow> x \<in> set xs"
  by (induction xs) (auto split: if_splits)

lemma provider_is_known:
  assumes "get_available_llm_provider ge = Some (prov, key)"
  shows "prov = ''gemini'' \<or> prov = ''openai'' \<or> prov = ''anthropic'' \<or>
         prov = ''openrouter'' \<or> prov = ''perplexity''"
proof -
  from assms have "(prov, key) \<in> set
       [(''gemini'', ge ''GEMINI_API_KEY''),
        (''openai'', ge ''OPENAI_API_KEY''),
        (''anthropic'', ge ''ANTHROPIC_API_KEY''),
        (''openrouter'', ge ''OPENROUTER_API_KEY''),
        (''perplexity'', ge ''PERPLEXITY_API_KEY'')]"
    unfolding get_available_llm_provider_def by (rule find_in_set)
  then show ?thesis by auto
qed

lemma synthesize_call_raises:
  assumes "get_available_llm_provider ge = Some (prov, key)"
    and "call prov = Inl e"
  shows "synthesize_with_llm R ge call
           = error_dict (''LLM synthesis failed: '' @ exn_str R e)"
proof -
  have "(if prov = ''gemini'' then call ''gemini''
         else if prov = ''openai'' then call ''openai''
         else if prov = ''anthropic'' then call ''anthropic''
         else if prov = ''openrouter'' then call ''openrouter''
         else if prov = ''perplexity'' then call ''perplexity''
         else Inr (error_dict (''Unknown provider: '' @ prov))) = call prov"
    using provider_is_known [OF assms(1)] by (elim disjE) simp_all
  then show ?thesis
    using assms by (simp add: synthesize_with_llm_def)
qed

lemma render_markdown_error_dict:
  "render_markdown R p (error_dict msg) sr =
     Inr (join_lines [''# Community Research: '' @ topic p, ''**Language**: '' @ language p,
                      [], ''**Error**: '' @ msg, []])"
  by (simp add: render_markdown_def error_dict_def try_bind_def py_str_def py_join_lines_def)

lemma render_result_error_dict:
  "\<exists>res. render_result R p (error_dict msg) sr n = Inr res"
proof (cases "response_format p")
  case MARKDOWN
  then show ?thesis
    by (simp add: render_result_def render_markdown_error_dict try_bind_def)
next
  case JSON
  then show ?thesis
    by (simp add: render_result_def json_response_def error_dict_def try_bind_def Let_def
          truncate_response_def response_items_def)
qed

lemma render_result_markdown:
  assumes "response_format p = MARKDOWN" and "render_markdown R p syn sr = Inr r"
  shows "render_result R p syn sr n =
           Inr (if length r > CHARACTER_LIMIT then take CHARACTER_LIMIT r @ truncation_notice else r)"
  using assms by (simp add: render_result_def try_bind_def)

lemma length_truncation_notice: "length truncation_notice = 73"
  by (simp add: truncation_notice_def)

lemma render_result_json_small:
  assumes "response_format p = JSON" and "json_response p syn sr n = Inr resp"
    and "length (json_dumps_indent R resp) \<le> CHARACTER_LIMIT"
  shows "render_result R p syn sr n = Inr (json_dumps_indent R resp)"
  using assms by (simp add: render_result_def try_bind_def Let_def)

lemma render_result_json_truncated:
  assumes "response_format p = JSON"
    and "py_get syn ''findings'' (JArr []) = Inr (JArr fs)"
    and "py_get syn ''error'' JNull = Inr err"
    and "length (json_dumps_indent R (JObj (response_items p (JArr fs) err sr n))) > CHARACTER_LIMIT"
  shows "render_result R p syn sr n =
           Inr (json_dumps_indent R
                 (JObj (response_items p (JArr (take (max 1 (length fs div 2)) fs)) err sr n @
                        [(''truncated'', JBool True),
                         (''truncation_message'',
                            JStr (truncation_message (length fs)
                                    (min (length fs) (max 1 (length fs div 2)))))])))"
proof -
  have resp: "json_response p syn sr n = Inr (JObj (response_items p (JArr fs) err sr n))"
    using assms(2,3) by (simp add: json_response_def try_bind_def)
  have tr: "truncate_response (JObj (response_items p (JArr fs) err sr n)) =
              Inr (JObj (response_items p (JArr (take (max 1 (length fs div 2)) fs)) err sr n @
                        [(''truncated'', JBool True),
                         (''truncation_message'',
                            JStr (truncation_message (length fs)
                                    (min (length fs) (max 1 (length fs div 2)))))]))"
    by (simp add: truncate_response_def response_items_def try_bind_def)
  show ?thesis
    using assms(1,4) resp tr by (simp add: render_result_def try_bind_def Let_def)
qed

lemma demo_render_markdown:
  "render_markdown demo_runtime demo_input (demo_reply solution) demo_results
     = Inr (demo_markdown solution)"
  by (simp add: render_markdown_def demo_reply_def demo_finding_def demo_results_def
        demo_input_def demo_markdown_def try_bind_def py_str_def py_join_lines_def
        finding_lines_def sources_lines_def dec.simps)

lemma length_demo_markdown: "length (demo_markdown solution) = 452 + length solution"
  by (simp add: demo_markdown_def)


lemma demo_results_search:
  "attempt_search R p (demo_attempt (Responds demo_response) reply) = Inr demo_results"
  by (simp add: demo_attempt_search demo_results_def)

lemma demo_results_total: "total_results_of demo_results = 1"
  by (simp add: total_results_of_def search_results_values_def demo_results_def)

lemma demo_error_markdown_eq:
  "join_lines [''# Community Research: '' @ topic demo_input, ''**Language**: '' @ language demo_input,
               [], ''**Error**: '' @ msg, []] = demo_error_markdown msg"
  by (simp add: demo_error_markdown_def demo_input_def)

lemma length_demo_error_markdown: "length (demo_error_markdown msg) = 97 + length msg"
  by (simp add: demo_error_markdown_def)

text \<open>The first call of a fresh server whose first attempt renders \<open>res\<close>.\<close>

lemma fresh_call_returns:
  assumes "run_attempt demo_runtime p (community_search_cache_key demo_runtime p) ae 0 Map.empty
             = (evs, Inr (res, c'))"
  shows "community_search demo_runtime p (demo_call ae) fresh_globals =
           (res, \<lparr>cache_of = c', tracker_of = [''community_search'' \<mapsto> [0]]\<rparr>, evs)"
proof -
  have "retry_loop demo_runtime p (community_search_cache_key demo_runtime p)
          (attempt_envs (demo_call ae)) 0 Map.empty = (res, c', evs)"
    using assms by (intro retry_loop_returns) (simp_all add: MAX_RETRIES_def demo_call_def)
  then have "community_search demo_runtime p (demo_call ae) fresh_globals =
           (res, \<lparr>cache_of = c',
                  tracker_of = (tracker_of fresh_globals)
                    (''community_search'' \<mapsto>
                       cs_window (demo_call ae) fresh_globals @ [rate_time (demo_call ae)])\<rparr>, evs)"
    by (intro community_search_miss)
       (simp_all add: fresh_window fresh_lookup RATE_LIMIT_MAX_CALLS_def)
  moreover have "rate_time (demo_call ae) = 0" "tracker_of fresh_globals = Map.empty"
    by (simp_all add: demo_call_def fresh_globals_def)
  ultimately show ?thesis by (simp add: fresh_window)
qed

lemma demo_store_time: "store_time (demo_attempt so reply) = 5"
  by (simp add: demo_attempt_def)

lemma synthesize_call_returns:
  assumes "get_available_llm_provider ge = Some (prov, key)"
    and "call prov = Inr syn"
  shows "synthesize_with_llm R ge call = syn"
proof -
  have "(if prov = ''gemini'' then call ''gemini''
         else if prov = ''openai'' then call ''openai''
         else if prov = ''anthropic'' then call ''anthropic''
         else if prov = ''openrouter'' then call ''openrouter''
         else if prov = ''perplexity'' then call ''perplexity''
         else Inr (error_dict (''Unknown provider: '' @ prov))) = call prov"
    using provider_is_known [OF assms(1)] by (elim disjE) simp_all
  then show ?thesis
    using assms by (simp add: synthesize_with_llm_def)
qed

lemma render_result_not_object:
  assumes "\<forall>kvs. syn \<noteq> JObj kvs"
  shows "\<exists>e. render_result R p syn sr n = Inl e"
  using assms
  by (cases syn; cases "response_format p")
     (simp_all add: render_result_def render_markdown_def json_response_def try_bind_def
        Let_def)

text \<open>
  Claim C2, as the code has it. When the call of the selected provider
  raises, as it does on a reply that \<^verbatim>\<open>json.loads\<close> rejects, the
  synthesis is the error dict ``LLM synthesis failed''; rendering it does not
  raise, and the attempt returns the rendered payload and writes it to the
  cache: the loop returns in that attempt, without sleeping or searching
  again. A reply that parses to a value that is not an object makes the
  rendering raise, and while attempts remain that attempt is followed by a
  sleep and the next attempt.
\<close>

theorem parse_failure_is_returned_and_cached:
  "(get_available_llm_provider (getenv ae) = Some (prov, key) \<and> provider_call ae prov = Inl e \<longrightarrow>
      synthesize_with_llm R (getenv ae) (provider_call ae)
        = JObj [(''error'', JStr (''LLM synthesis failed: '' @ exn_str R e)),
                (''findings'', JArr [])])
   \<and> (i < MAX_RETRIES \<and> attempt_search R p (envs i) = Inr sr \<and> total_results_of sr > 0 \<and>
       get_available_llm_provider (getenv (envs i)) = Some (prov, key) \<and>
       provider_call (envs i) prov = Inl e \<longrightarrow>
      (\<exists>res. render_result R p
                   (JObj [(''error'', JStr (''LLM synthesis failed: '' @ exn_str R e)),
                          (''findings'', JArr [])])
                   sr (total_results_of sr) = Inr res \<and>
             run_attempt R p k (envs i) i c =
               ([Searched i, Synthesized i],
                Inr (res, set_cached_result (store_time (envs i)) k res c)) \<and>
             retry_loop R p k envs i c =
               (res, set_cached_result (store_time (envs i)) k res c,
                [Searched i, Synthesized i])))
   \<and> render_markdown R p (JObj [(''error'', JStr msg), (''findings'', JArr [])]) sr =
       Inr (join_lines [''# Community Research: '' @ topic p, ''**Language**: '' @ language p,
                        [], ''**Error**: '' @ msg, []])
   \<and> (Suc i < MAX_RETRIES \<and> attempt_search R p (envs i) = Inr sr \<and> total_results_of sr > 0 \<and>
       get_available_llm_provider (getenv (envs i)) = Some (prov, key) \<and>
       provider_call (envs i) prov = Inr syn \<and> (\<forall>kvs. syn \<noteq> JObj kvs) \<longrightarrow>
      (\<exists>x. run_attempt R p k (envs i) i c = ([Searched i, Synthesized i], Inl x)) \<and>
      retry_loop R p k envs i c =
        (case retry_loop R p k envs (Suc i) c of
           (res, c', evs') \<Rightarrow> (res, c', [Searched i, Synthesized i] @ [Slept (2 ^ i)] @ evs')))"
  unfolding error_dict_def [symmetric]
proof (intro conjI impI)
  assume b: "Suc i < MAX_RETRIES \<and> attempt_search R p (envs i) = Inr sr \<and> total_results_of sr > 0 \<and>
       get_available_llm_provider (getenv (envs i)) = Some (prov, key) \<and>
       provider_call (envs i) prov = Inr syn \<and> (\<forall>kvs. syn \<noteq> JObj kvs)"
  then have syn: "synthesize_with_llm R (getenv (envs i)) (provider_call (envs i)) = syn"
    using synthesize_call_returns by blast
  from b obtain x where "render_result R p syn sr (total_results_of sr) = Inl x"
    using render_result_not_object by blast
  with b syn have run: "run_attempt R p k (envs i) i c = ([Searched i, Synthesized i], Inl x)"
    by (intro run_attempt_raised) simp_all
  then show "\<exists>x. run_attempt R p k (envs i) i c = ([Searched i, Synthesized i], Inl x)"
    by blast
  from b run show "retry_loop R p k envs i c =
        (case retry_loop R p k envs (Suc i) c of
           (res, c', evs') \<Rightarrow> (res, c', [Searched i, Synthesized i] @ [Slept (2 ^ i)] @ evs'))"
    using retry_loop_retries by blast
next
  assume "get_available_llm_provider (getenv ae) = Some (prov, key) \<and> provider_call ae prov = Inl e"
  then show "synthesize_with_llm R (getenv ae) (provider_call ae)
        = error_dict (''LLM synthesis failed: '' @ exn_str R e)"
    using synthesize_call_raises by blast
next
  let ?d = "error_dict (''LLM synthesis failed: '' @ exn_str R e)"
  assume a: "i < MAX_RETRIES \<and> attempt_search R p (envs i) = Inr sr \<and> total_results_of sr > 0 \<and>
       get_available_llm_provider (getenv (envs i)) = Some (prov, key) \<and>
       provider_call (envs i) prov = Inl e"
  then have syn: "synthesize_with_llm R (getenv (envs i)) (provider_call (envs i)) = ?d"
    using synthesize_call_raises by blast
  obtain res where res: "render_result R p ?d sr (total_results_of sr) = Inr res"
    using render_result_error_dict by blast
  have run: "run_attempt R p k (envs i) i c =
               ([Searched i, Synthesized i],
                Inr (res, set_cached_result (store_time (envs i)) k res c))"
    using a syn res by (intro run_attempt_rendered) simp_all
  have "retry_loop R p k envs i c =
               (res, set_cached_result (store_time (envs i)) k res c,
                [Searched i, Synthesized i])"
    using a run by (intro retry_loop_returns) simp_all
  with res run show "\<exists>res. render_result R p ?d sr (total_results_of sr) = Inr res \<and>
             run_attempt R p k (envs i) i c =
               ([Searched i, Synthesized i],
                Inr (res, set_cached_result (store_time (envs i)) k res c)) \<and>
             retry_loop R p k envs i c =
               (res, set_cached_result (store_time (envs i)) k res c,
                [Searched i, Synthesized i])"
    by blast
next
  show "render_markdown R p (error_dict msg) sr =
       Inr (join_lines [''# Community Research: '' @ topic p, ''**Language**: '' @ language p,
                        [], ''**Error**: '' @ msg, []])"
    by (rule render_markdown_error_dict)
qed

lemma demo_provider:
  "get_available_llm_provider (getenv (demo_attempt so reply)) = Some (''gemini'', Some ''k3y'')"
  by (simp add: get_available_llm_provider_def demo_attempt_def key_usable_def py_strip_def
        py_isspace_def)

lemma demo_error_render:
  assumes "length msg \<le> 1000"
  shows "render_result demo_runtime demo_input (error_dict msg) sr n = Inr (demo_error_markdown msg)"
proof -
  have f: "response_format demo_input = MARKDOWN" by (simp add: demo_input_def)
  have "length (demo_error_markdown msg) \<le> CHARACTER_LIMIT"
    using assms by (simp add: length_demo_error_markdown CHARACTER_LIMIT_def)
  moreover have "render_markdown demo_runtime demo_input (error_dict msg) sr
                   = Inr (demo_error_markdown msg)"
    using render_markdown_error_dict [of demo_runtime demo_input msg sr]
    unfolding demo_error_markdown_eq .
  ultimately show ?thesis
    using render_result_markdown [OF f, of demo_runtime "error_dict msg" sr "demo_error_markdown msg" n]
    by simp
qed

theorem parse_failure_is_returned_and_cached_witness:
  "retry_loop demo_runtime demo_input ''key''
     (\<lambda>i. demo_attempt (Responds demo_response)
             (Inl (External ''Unterminated string starting at: line 3 column 5 (char 27)'')))
     0 Map.empty =
     (demo_error_markdown
        ''LLM synthesis failed: Unterminated string starting at: line 3 column 5 (char 27)'',
      [''key'' \<mapsto>
         \<lparr>result = demo_error_markdown
            ''LLM synthesis failed: Unterminated string starting at: line 3 column 5 (char 27)'',
          timestamp = 5\<rparr>],
      [Searched 0, Synthesized 0])
   \<and> (\<exists>x. run_attempt demo_runtime demo_input ''key''
              (demo_attempt (Responds demo_response) (Inr (JArr []))) 0 Map.empty
            = ([Searched 0, Synthesized 0], Inl x))"
proof -
  let ?m = "''Unterminated string starting at: line 3 column 5 (char 27)''"
  let ?e = "External ?m"
  let ?ae = "demo_attempt (Responds demo_response) (Inl ?e)"
  let ?msg = "''LLM synthesis failed: '' @ exn_str demo_runtime ?e"
  have h: "0 < MAX_RETRIES \<and> attempt_search demo_runtime demo_input ?ae = Inr demo_results \<and>
       total_results_of demo_results > 0 \<and>
       get_available_llm_provider (getenv ?ae) = Some (''gemini'', Some ''k3y'') \<and>
       provider_call ?ae ''gemini'' = Inl ?e"
    by (simp add: MAX_RETRIES_def demo_results_search demo_results_total demo_provider)
       (simp add: demo_attempt_def)
  from parse_failure_is_returned_and_cached
         [of ?ae "''gemini''" "Some ''k3y''" ?e demo_runtime 0 demo_input "\<lambda>i. ?ae"
             demo_results "''key''" Map.empty, folded error_dict_def] h
  obtain res where
    r: "render_result demo_runtime demo_input (error_dict ?msg) demo_results
          (total_results_of demo_results) = Inr res"
    and l: "retry_loop demo_runtime demo_input ''key'' (\<lambda>i. ?ae) 0 Map.empty =
              (res, set_cached_result (store_time ?ae) ''key'' res Map.empty,
               [Searched 0, Synthesized 0])"
    by blast
  have m: "?msg = ''LLM synthesis failed: Unterminated string starting at: line 3 column 5 (char 27)''"
    by (simp add: exn_str_def)
  have "render_result demo_runtime demo_input (error_dict ?msg) demo_results
          (total_results_of demo_results) = Inr (demo_error_markdown ?msg)"
    by (rule demo_error_render) (simp add: exn_str_def)
  with r have "res = demo_error_markdown ?msg" by simp
  with l m have first: "retry_loop demo_runtime demo_input ''key'' (\<lambda>i. ?ae) 0 Map.empty =
     (demo_error_markdown
        ''LLM synthesis failed: Unterminated string starting at: line 3 column 5 (char 27)'',
      [''key'' \<mapsto>
         \<lparr>result = demo_error_markdown
            ''LLM synthesis failed: Unterminated string starting at: line 3 column 5 (char 27)'',
          timestamp = 5\<rparr>],
      [Searched 0, Synthesized 0])"
    by (simp add: demo_store_time set_cached_result_def)
  let ?ae2 = "demo_attempt (Responds demo_response) (Inr (JArr []))"
  have h2: "Suc 0 < MAX_RETRIES \<and>
       attempt_search demo_runtime demo_input ?ae2 = Inr demo_results \<and>
       total_results_of demo_results > 0 \<and>
       get_available_llm_provider (getenv ?ae2) = Some (''gemini'', Some ''k3y'') \<and>
       provider_call ?ae2 ''gemini'' = Inr (JArr []) \<and> (\<forall>kvs. JArr [] \<noteq> JObj kvs)"
    by (simp add: MAX_RETRIES_def demo_results_search demo_results_total demo_provider)
       (simp add: demo_attempt_def)
  from parse_failure_is_returned_and_cached
         [of _ "''gemini''" "Some ''k3y''" _ demo_runtime 0 demo_input "\<lambda>i. ?ae2"
             demo_results "''key''" Map.empty _ "JArr []", folded error_dict_def] h2
  have second: "\<exists>x. run_attempt demo_runtime demo_input ''key'' ?ae2 0 Map.empty
            = ([Searched 0, Synthesized 0], Inl x)"
    by blast
  from first second show ?thesis by blast
qed

text \<open>
  The claim fails on the code: a reply that \<^verbatim>\<open>json.loads\<close> rejects in
  the first attempt is answered in that attempt, with the error in the
  payload and the payload in the cache, and nothing is retried.
\<close>

theorem parse_failure_retry_counterexample:
  "community_search demo_runtime demo_input
     (demo_call (demo_attempt (Responds demo_response)
                   (Inl (External ''Expecting value: line 1 column 1 (char 0)''))))
     fresh_globals =
     (demo_error_markdown ''LLM synthesis failed: Expecting value: line 1 column 1 (char 0)'',
      \<lparr>cache_of = [community_search_cache_key demo_runtime demo_input \<mapsto>
          \<lparr>result = demo_error_markdown
             ''LLM synthesis failed: Expecting value: line 1 column 1 (char 0)'',
           timestamp = 5\<rparr>],
       tracker_of = [''community_search'' \<mapsto> [0]]\<rparr>,
      [Searched 0, Synthesized 0])"
proof -
  let ?e = "External ''Expecting value: line 1 column 1 (char 0)''"
  let ?ae = "demo_attempt (Responds demo_response) (Inl ?e)"
  let ?k = "community_search_cache_key demo_runtime demo_input"
  let ?msg = "''LLM synthesis failed: Expecting value: line 1 column 1 (char 0)''"
  have syn: "synthesize_with_llm demo_runtime (getenv ?ae) (provider_call ?ae) = error_dict ?msg"
    by (simp add: synthesize_demo exn_str_def)
  have ren: "render_result demo_runtime demo_input (error_dict ?msg) demo_results
               (total_results_of demo_results) = Inr (demo_error_markdown ?msg)"
    by (rule demo_error_render) simp
  have t: "total_results_of demo_results > 0" by (simp add: demo_results_total)
  have ren': "render_result demo_runtime demo_input
                (synthesize_with_llm demo_runtime (getenv ?ae) (provider_call ?ae)) demo_results
                (total_results_of demo_results) = Inr (demo_error_markdown ?msg)"
    using syn ren by simp
  have "run_attempt demo_runtime demo_input ?k ?ae 0 Map.empty =
          ([Searched 0, Synthesized 0],
           Inr (demo_error_markdown ?msg,
                set_cached_result (store_time ?ae) ?k (demo_error_markdown ?msg) Map.empty))"
    by (rule run_attempt_rendered [OF demo_results_search t ren'])
  from fresh_call_returns [OF this] show ?thesis
    by (simp add: demo_store_time set_cached_result_def)
qed

lemma halved_length:
  "fs \<noteq> [] \<Longrightarrow> length (take (max 1 (length fs div 2)) fs) = max 1 (length fs div 2)"
  by (cases fs) auto

text \<open>
  Claim C3, as the code has it. A markdown text of at most 25,000 characters
  is returned as it is; a longer one is cut to its first 25,000 characters
  and the notice of 73 characters is appended, which makes 25,073 characters.
  A JSON text of at most 25,000 characters is returned as it is; for a longer
  one whose findings are a list, the list is cut to its first
  \<open>max 1 (n div 2)\<close> findings, the keys \<^verbatim>\<open>truncated\<close> and
  \<^verbatim>\<open>truncation_message\<close> are added, and the dict is printed again and
  returned whatever the length of the new text. The attempt returns that text
  and writes it to the cache.
\<close>

theorem truncation_of_oversized_payload:
  "(response_format p = MARKDOWN \<and> render_markdown R p syn sr = Inr r \<and>
    length r \<le> CHARACTER_LIMIT \<longrightarrow> render_result R p syn sr n = Inr r)
   \<and> (response_format p = MARKDOWN \<and> render_markdown R p syn sr = Inr r \<and>
       length r > CHARACTER_LIMIT \<longrightarrow>
         render_result R p syn sr n =
           Inr (take CHARACTER_LIMIT r @
                [CHR 0x0A, CHR 0x0A] @
                ''[Response truncated due to size limits. Use JSON format for full data.]'') \<and>
         length (take CHARACTER_LIMIT r @
                 [CHR 0x0A, CHR 0x0A] @
                 ''[Response truncated due to size limits. Use JSON format for full data.]'')
           = 25073)
   \<and> (response_format p = JSON \<and> json_response p syn sr n = Inr resp \<and>
       length (json_dumps_indent R resp) \<le> CHARACTER_LIMIT \<longrightarrow>
         render_result R p syn sr n = Inr (json_dumps_indent R resp))
   \<and> (response_format p = JSON \<and> py_get syn ''findings'' (JArr []) = Inr (JArr fs) \<and>
       py_get syn ''error'' JNull = Inr err \<and>
       length (json_dumps_indent R (JObj (response_items p (JArr fs) err sr n))) > CHARACTER_LIMIT \<longrightarrow>
         render_result R p syn sr n =
           Inr (json_dumps_indent R
                 (JObj (response_items p (JArr (take (max 1 (length fs div 2)) fs)) err sr n @
                        [(''truncated'', JBool True),
                         (''truncation_message'',
                            JStr (''Response truncated from '' @ dec (length fs) @ '' to '' @
                                  dec (min (length fs) (max 1 (length fs div 2))) @
                                  '' findings due to size limits.''))]))))
   \<and> (fs \<noteq> [] \<longrightarrow> length (take (max 1 (length fs div 2)) fs) = max 1 (length fs div 2))
   \<and> (attempt_search R p ae = Inr sr \<and> total_results_of sr > 0 \<and>
       render_result R p (synthesize_with_llm R (getenv ae) (provider_call ae)) sr
         (total_results_of sr) = Inr res \<longrightarrow>
         run_attempt R p k ae i c =
           ([Searched i, Synthesized i], Inr (res, set_cached_result (store_time ae) k res c)))"
  unfolding truncation_notice_def [symmetric] truncation_message_def [symmetric]
proof (intro conjI impI)
  assume "response_format p = MARKDOWN \<and> render_markdown R p syn sr = Inr r \<and>
    length r \<le> CHARACTER_LIMIT"
  then show "render_result R p syn sr n = Inr r"
    using render_result_markdown [of p R syn sr r n] by simp
next
  assume a: "response_format p = MARKDOWN \<and> render_markdown R p syn sr = Inr r \<and>
       length r > CHARACTER_LIMIT"
  then show "render_result R p syn sr n = Inr (take CHARACTER_LIMIT r @ truncation_notice)"
    using render_result_markdown [of p R syn sr r n] by simp
  from a show "length (take CHARACTER_LIMIT r @ truncation_notice) = 25073"
    by (simp add: length_truncation_notice CHARACTER_LIMIT_def)
next
  assume "response_format p = JSON \<and> json_response p syn sr n = Inr resp \<and>
       length (json_dumps_indent R resp) \<le> CHARACTER_LIMIT"
  then show "render_result R p syn sr n = Inr (json_dumps_indent R resp)"
    using render_result_json_small by blast
next
  assume "response_format p = JSON \<and> py_get syn ''findings'' (JArr []) = Inr (JArr fs) \<and>
       py_get syn ''error'' JNull = Inr err \<and>
       length (json_dumps_indent R (JObj (response_items p (JArr fs) err sr n))) > CHARACTER_LIMIT"
  then show "render_result R p syn sr n =
           Inr (json_dumps_indent R
                 (JObj (response_items p (JArr (take (max 1 (length fs div 2)) fs)) err sr n @
                        [(''truncated'', JBool True),
                         (''truncation_message'',
                            JStr (truncation_message (length fs)
                                    (min (length fs) (max 1 (length fs div 2)))))])))"
    using render_result_json_truncated by blast
next
  assume "fs \<noteq> []"
  then show "length (take (max 1 (length fs div 2)) fs) = max 1 (length fs div 2)"
    by (rule halved_length)
next
  assume "attempt_search R p ae = Inr sr \<and> total_results_of sr > 0 \<and>
       render_result R p (synthesize_with_llm R (getenv ae) (provider_call ae)) sr
         (total_results_of sr) = Inr res"
  then show "run_attempt R p k ae i c =
           ([Searched i, Synthesized i], Inr (res, set_cached_result (store_time ae) k res c))"
    using run_attempt_rendered by blast
qed

lemma length_oversized:
  "length (demo_markdown (replicate 25000 CHR ''x'')) = 25452"
  by (simp add: length_demo_markdown)

lemma demo_json_oversized:
  "length (json_dumps_indent demo_runtime
             (JObj (response_items (demo_input\<lparr>response_format := JSON\<rparr>)
                      (JArr [demo_finding (replicate 4000 CHR ''s''), demo_finding (replicate 4000 CHR ''s''),
                             demo_finding (replicate 4000 CHR ''s''), demo_finding (replicate 4000 CHR ''s''),
                             demo_finding (replicate 4000 CHR ''s''), demo_finding (replicate 4000 CHR ''s''),
                             demo_finding (replicate 4000 CHR ''s''), demo_finding (replicate 4000 CHR ''s'')])
                      JNull demo_results 1)))
     > CHARACTER_LIMIT"
  by (simp add: demo_runtime_def response_items_def demo_finding_def demo_results_def
        demo_input_def dec.simps CHARACTER_LIMIT_def)

lemma demo_json_halved_fits:
  "length (json_dumps_indent demo_runtime
            (JObj (response_items (demo_input\<lparr>response_format := JSON\<rparr>)
                     (JArr [demo_finding (replicate 4000 CHR ''s''), demo_finding (replicate 4000 CHR ''s''),
                            demo_finding (replicate 4000 CHR ''s''), demo_finding (replicate 4000 CHR ''s'')])
                     JNull demo_results 1 @
                   [(''truncated'', JBool True),
                    (''truncation_message'',
                       JStr ''Response truncated from 8 to 4 findings due to size limits.'')])))
     \<le> CHARACTER_LIMIT"
  by (simp add: demo_runtime_def response_items_def demo_finding_def demo_results_def
        demo_input_def dec.simps CHARACTER_LIMIT_def)

lemma demo_json_single_oversized:
  "length (json_dumps_indent demo_runtime
             (JObj (response_items (demo_input\<lparr>response_format := JSON\<rparr>)
                      (JArr [demo_finding (replicate 25000 CHR ''s'')]) JNull demo_results 1)))
     > CHARACTER_LIMIT"
  by (simp add: demo_runtime_def response_items_def demo_finding_def demo_results_def
        demo_input_def dec.simps CHARACTER_LIMIT_def)

lemma demo_json_single_kept_oversized:
  "length (json_dumps_indent demo_runtime
            (JObj (response_items (demo_input\<lparr>response_format := JSON\<rparr>)
                     (JArr [demo_finding (replicate 25000 CHR ''s'')]) JNull demo_results 1 @
                   [(''truncated'', JBool True),
                    (''truncation_message'',
                       JStr ''Response truncated from 1 to 1 findings due to size limits.'')])))
     > CHARACTER_LIMIT"
  by (simp add: demo_runtime_def response_items_def demo_finding_def demo_results_def
        demo_input_def dec.simps CHARACTER_LIMIT_def)

text \<open>
  With the flat printer of \<open>demo_runtime\<close>: a markdown text of 25,452
  characters is cut and the notice appended; a reply of eight findings of
  4,000 characters each is cut to four findings and then fits the limit; a
  reply of one finding of 25,000 characters keeps that finding, and the text
  returned is still longer than the limit.
\<close>

theorem truncation_of_oversized_payload_witness:
  "render_result demo_runtime demo_input (demo_reply (replicate 25000 CHR ''x'')) demo_results 1
     = Inr (take CHARACTER_LIMIT (demo_markdown (replicate 25000 CHR ''x'')) @ truncation_notice)
   \<and> length (take CHARACTER_LIMIT (demo_markdown (replicate 25000 CHR ''x'')) @ truncation_notice)
     = 25073
   \<and> render_result demo_runtime demo_input (demo_reply ''pip install celery'') demo_results 1
     = Inr (demo_markdown ''pip install celery'')
   \<and> render_result demo_runtime (demo_input\<lparr>response_format := JSON\<rparr>)
     (JObj [(''findings'',
             JArr [demo_finding (replicate 4000 CHR ''s''), demo_finding (replicate 4000 CHR ''s''),
                   demo_finding (replicate 4000 CHR ''s''), demo_finding (replicate 4000 CHR ''s''),
                   demo_finding (replicate 4000 CHR ''s''), demo_finding (replicate 4000 CHR ''s''),
                   demo_finding (replicate 4000 CHR ''s''), demo_finding (replicate 4000 CHR ''s'')])])
     demo_results 1
   = Inr (json_dumps_indent demo_runtime
            (JObj (response_items (demo_input\<lparr>response_format := JSON\<rparr>)
                     (JArr [demo_finding (replicate 4000 CHR ''s''), demo_finding (replicate 4000 CHR ''s''),
                            demo_finding (replicate 4000 CHR ''s''), demo_finding (replicate 4000 CHR ''s'')])
                     JNull demo_results 1 @
                   [(''truncated'', JBool True),
                    (''truncation_message'',
                       JStr ''Response truncated from 8 to 4 findings due to size limits.'')])))
   \<and> length (json_dumps_indent demo_runtime
            (JObj (response_items (demo_input\<lparr>response_format := JSON\<rparr>)
                     (JArr [demo_finding (replicate 4000 CHR ''s''), demo_finding (replicate 4000 CHR ''s''),
                            demo_finding (replicate 4000 CHR ''s''), demo_finding (replicate 4000 CHR ''s'')])
                     JNull demo_results 1 @
                   [(''truncated'', JBool True),
                    (''truncation_message'',
                       JStr ''Response truncated from 8 to 4 findings due to size limits.'')])))
     \<le> CHARACTER_LIMIT
   \<and> render_result demo_runtime (demo_input\<lparr>response_format := JSON\<rparr>)
     (JObj [(''findings'', JArr [demo_finding (replicate 25000 CHR ''s'')])]) demo_results 1
   = Inr (json_dumps_indent demo_runtime
            (JObj (response_items (demo_input\<lparr>response_format := JSON\<rparr>)
                     (JArr [demo_finding (replicate 25000 CHR ''s'')]) JNull demo_results 1 @
                   [(''truncated'', JBool True),
                    (''truncation_message'',
                       JStr ''Response truncated from 1 to 1 findings due to size limits.'')])))
   \<and> length (json_dumps_indent demo_runtime
            (JObj (response_items (demo_input\<lparr>response_format := JSON\<rparr>)
                     (JArr [demo_finding (replicate 25000 CHR ''s'')]) JNull demo_results 1 @
                   [(''truncated'', JBool True),
                    (''truncation_message'',
                       JStr ''Response truncated from 1 to 1 findings due to size limits.'')])))
     > CHARACTER_LIMIT"
proof -
  let ?big = "replicate 25000 CHR ''x''"
  have f: "response_format demo_input = MARKDOWN" by (simp add: demo_input_def)
  have h1: "response_format demo_input = MARKDOWN \<and>
            render_markdown demo_runtime demo_input (demo_reply ?big) demo_results
              = Inr (demo_markdown ?big) \<and>
            length (demo_markdown ?big) > CHARACTER_LIMIT"
    using f by (simp add: demo_render_markdown length_oversized CHARACTER_LIMIT_def)
  have h2: "response_format demo_input = MARKDOWN \<and>
            render_markdown demo_runtime demo_input (demo_reply ''pip install celery'') demo_results
              = Inr (demo_markdown ''pip install celery'') \<and>
            length (demo_markdown ''pip install celery'') \<le> CHARACTER_LIMIT"
    using f by (simp add: demo_render_markdown length_demo_markdown CHARACTER_LIMIT_def)
  from truncation_of_oversized_payload
         [of demo_input demo_runtime "demo_reply ?big" demo_results "demo_markdown ?big" 1,
          folded truncation_notice_def truncation_message_def] h1
  have a: "render_result demo_runtime demo_input (demo_reply ?big) demo_results 1
             = Inr (take CHARACTER_LIMIT (demo_markdown ?big) @ truncation_notice) \<and>
           length (take CHARACTER_LIMIT (demo_markdown ?big) @ truncation_notice)
             = 25073"
    by blast
  from truncation_of_oversized_payload
         [of demo_input demo_runtime "demo_reply ''pip install celery''" demo_results
             "demo_markdown ''pip install celery''" 1,
          folded truncation_notice_def truncation_message_def] h2
  have b: "render_result demo_runtime demo_input (demo_reply ''pip install celery'') demo_results 1
             = Inr (demo_markdown ''pip install celery'')"
    by blast

  let ?f = "demo_finding (replicate 4000 CHR ''s'')"
  let ?fs = "[?f, ?f, ?f, ?f, ?f, ?f, ?f, ?f]"
  let ?pj = "demo_input\<lparr>response_format := JSON\<rparr>"
  let ?syn = "JObj [(''findings'', JArr ?fs)]"
  have h3: "response_format ?pj = JSON \<and> py_get ?syn ''findings'' (JArr []) = Inr (JArr ?fs) \<and>
       py_get ?syn ''error'' JNull = Inr JNull \<and>
       length (json_dumps_indent demo_runtime (JObj (response_items ?pj (JArr ?fs) JNull demo_results 1)))
         > CHARACTER_LIMIT"
    using demo_json_oversized by simp
  from truncation_of_oversized_payload
         [of ?pj demo_runtime ?syn demo_results _ 1 _ ?fs JNull,
          folded truncation_notice_def truncation_message_def] h3
  have c0: "render_result demo_runtime ?pj ?syn demo_results 1 =
           Inr (json_dumps_indent demo_runtime
                 (JObj (response_items ?pj (JArr (take (max 1 (length ?fs div 2)) ?fs)) JNull demo_results 1 @
                        [(''truncated'', JBool True),
                         (''truncation_message'',
                            JStr (truncation_message (length ?fs)
                                    (min (length ?fs) (max 1 (length ?fs div 2)))))])))"
    by blast
  then have c: "render_result demo_runtime (demo_input\<lparr>response_format := JSON\<rparr>)
     (JObj [(''findings'',
             JArr [demo_finding (replicate 4000 CHR ''s''), demo_finding (replicate 4000 CHR ''s''),
                   demo_finding (replicate 4000 CHR ''s''), demo_finding (replicate 4000 CHR ''s''),
                   demo_finding (replicate 4000 CHR ''s''), demo_finding (replicate 4000 CHR ''s''),
                   demo_finding (replicate 4000 CHR ''s''), demo_finding (replicate 4000 CHR ''s'')])])
     demo_results 1
   = Inr (json_dumps_indent demo_runtime
            (JObj (response_items (demo_input\<lparr>response_format := JSON\<rparr>)
                     (JArr [demo_finding (replicate 4000 CHR ''s''), demo_finding (replicate 4000 CHR ''s''),
                            demo_finding (replicate 4000 CHR ''s''), demo_finding (replicate 4000 CHR ''s'')])
                     JNull demo_results 1 @
                   [(''truncated'', JBool True),
                    (''truncation_message'',
                       JStr ''Response truncated from 8 to 4 findings due to size limits.'')])))"
    by (simp add: truncation_message_def dec.simps)
  let ?g = "demo_finding (replicate 25000 CHR ''s'')"
  let ?syn1 = "JObj [(''findings'', JArr [?g])]"
  have h4: "response_format ?pj = JSON \<and> py_get ?syn1 ''findings'' (JArr []) = Inr (JArr [?g]) \<and>
       py_get ?syn1 ''error'' JNull = Inr JNull \<and>
       length (json_dumps_indent demo_runtime (JObj (response_items ?pj (JArr [?g]) JNull demo_results 1)))
         > CHARACTER_LIMIT"
    using demo_json_single_oversized by simp
  from truncation_of_oversized_payload
         [of ?pj demo_runtime ?syn1 demo_results _ 1 _ "[?g]" JNull,
          folded truncation_notice_def truncation_message_def] h4
  have d0: "render_result demo_runtime ?pj ?syn1 demo_results 1 =
           Inr (json_dumps_indent demo_runtime
                 (JObj (response_items ?pj (JArr (take (max 1 (length [?g] div 2)) [?g])) JNull demo_results 1 @
                        [(''truncated'', JBool True),
                         (''truncation_message'',
                            JStr (truncation_message (length [?g])
                                    (min (length [?g]) (max 1 (length [?g] div 2)))))])))"
    by blast
  then have d: "render_result demo_runtime ?pj ?syn1 demo_results 1
   = Inr (json_dumps_indent demo_runtime
            (JObj (response_items ?pj (JArr [?g]) JNull demo_results 1 @
                   [(''truncated'', JBool True),
                    (''truncation_message'',
                       JStr ''Response truncated from 1 to 1 findings due to size limits.'')])))"
    by (simp add: truncation_message_def dec.simps)
  from a b c d demo_json_halved_fits demo_json_single_kept_oversized show ?thesis by blast
qed

text \<open>
  The bound of the claim fails on the code: for a provider whose one finding
  has a solution of 25,000 characters, the markdown text has 25,452
  characters, and the call returns 25,073 characters.
\<close>

theorem character_limit_counterexample:
  "length (fst (community_search demo_runtime demo_input
                  (demo_call (demo_attempt (Responds demo_response)
                                (Inr (demo_reply (replicate 25000 CHR ''x'')))))
                  fresh_globals)) = 25073
   \<and> CHARACTER_LIMIT = 25000"
proof -
  let ?big = "replicate 25000 CHR ''x''"
  let ?ae = "demo_attempt (Responds demo_response) (Inr (demo_reply ?big))"
  let ?k = "community_search_cache_key demo_runtime demo_input"
  let ?res = "take CHARACTER_LIMIT (demo_markdown ?big) @ truncation_notice"
  have f: "response_format demo_input = MARKDOWN" by (simp add: demo_input_def)
  have syn: "synthesize_with_llm demo_runtime (getenv ?ae) (provider_call ?ae) = demo_reply ?big"
    by (simp add: synthesize_demo)
  have "render_result demo_runtime demo_input (demo_reply ?big) demo_results
          (total_results_of demo_results) =
        Inr (if length (demo_markdown ?big) > CHARACTER_LIMIT then ?res else demo_markdown ?big)"
    by (rule render_result_markdown [OF f demo_render_markdown])
  then have ren: "render_result demo_runtime demo_input
                    (synthesize_with_llm demo_runtime (getenv ?ae) (provider_call ?ae))
                    demo_results (total_results_of demo_results) = Inr ?res"
    by (simp add: syn length_oversized CHARACTER_LIMIT_def)
  have t: "total_results_of demo_results > 0" by (simp add: demo_results_total)
  have "run_attempt demo_runtime demo_input ?k ?ae 0 Map.empty =
          ([Searched 0, Synthesized 0],
           Inr (?res, set_cached_result (store_time ?ae) ?k ?res Map.empty))"
    by (rule run_attempt_rendered [OF demo_results_search t ren])
  from fresh_call_returns [OF this]
  have "fst (community_search demo_runtime demo_input (demo_call ?ae) fresh_globals) = ?res"
    by simp
  then show ?thesis
    by (simp add: length_oversized length_truncation_notice CHARACTER_LIMIT_def)
qed


theorem cache_key_ignores_response_format_witness:
  "fst (community_search demo_runtime (demo_input\<lparr>response_format := JSON\<rparr>)
          \<lparr>rate_time = 60, lookup_time = 61,
           attempt_envs = (\<lambda>i. demo_attempt (Responds demo_response) (Inr (demo_reply ''pip install celery'')))\<rparr>
          (fst (snd (community_search demo_runtime demo_input
                       (demo_call (demo_attempt (Responds demo_response)
                                     (Inr (demo_reply ''pip install celery''))))
                       fresh_globals))))
     = demo_markdown ''pip install celery''
   \<and> fst (community_search demo_runtime demo_input
            (demo_call (demo_attempt (Responds demo_response) (Inr (demo_reply ''pip install celery''))))
            fresh_globals)
     = demo_markdown ''pip install celery''"
proof -
  let ?sol = "''pip install celery''"
  let ?ae = "demo_attempt (Responds demo_response) (Inr (demo_reply ?sol))"
  let ?k = "community_search_cache_key demo_runtime demo_input"
  let ?res = "demo_markdown ?sol"
  let ?e = "\<lparr>result = ?res, timestamp = 5\<rparr>"
  let ?g1 = "\<lparr>cache_of = [?k \<mapsto> ?e], tracker_of = [''community_search'' \<mapsto> [0]]\<rparr>"
  let ?env2 = "\<lparr>rate_time = 60, lookup_time = 61, attempt_envs = (\<lambda>i. ?ae)\<rparr>"
  have f: "response_format demo_input = MARKDOWN" by (simp add: demo_input_def)
  have syn: "synthesize_with_llm demo_runtime (getenv ?ae) (provider_call ?ae) = demo_reply ?sol"
    by (simp add: synthesize_demo)
  have "render_result demo_runtime demo_input (demo_reply ?sol) demo_results
          (total_results_of demo_results) =
        Inr (if length ?res > CHARACTER_LIMIT
             then take CHARACTER_LIMIT ?res @ truncation_notice else ?res)"
    by (rule render_result_markdown [OF f demo_render_markdown])
  then have ren: "render_result demo_runtime demo_input
                    (synthesize_with_llm demo_runtime (getenv ?ae) (provider_call ?ae))
                    demo_results (total_results_of demo_results) = Inr ?res"
    by (simp add: syn length_demo_markdown CHARACTER_LIMIT_def)
  have t: "total_results_of demo_results > 0" by (simp add: demo_results_total)
  have "run_attempt demo_runtime demo_input ?k ?ae 0 Map.empty =
          ([Searched 0, Synthesized 0],
           Inr (?res, set_cached_result (store_time ?ae) ?k ?res Map.empty))"
    by (rule run_attempt_rendered [OF demo_results_search t ren])
  from fresh_call_returns [OF this]
  have first: "community_search demo_runtime demo_input (demo_call ?ae) fresh_globals =
                 (?res, ?g1, [Searched 0, Synthesized 0])"
    by (simp add: demo_store_time set_cached_result_def)
  have w: "cs_window ?env2 ?g1 = []"
    by (simp add: cs_window_def window_of_def prune_def RATE_LIMIT_WINDOW_def)
  have ne: "?res \<noteq> []" by (simp add: demo_markdown_def)
  have h: "length (cs_window ?env2 ?g1) < RATE_LIMIT_MAX_CALLS \<and>
       cache_of ?g1 ?k = Some ?e \<and>
       lookup_time ?env2 - timestamp ?e < CACHE_TTL_SECONDS \<and> result ?e \<noteq> []"
    using ne by (simp add: w RATE_LIMIT_MAX_CALLS_def CACHE_TTL_SECONDS_def)
  from cache_key_ignores_response_format
         [where R = demo_runtime and p = demo_input and f = JSON and env = ?env2 and g = ?g1 and e = ?e] h
  have "fst (community_search demo_runtime (demo_input\<lparr>response_format := JSON\<rparr>) ?env2 ?g1)
          = result ?e"
    by blast
  with first show ?thesis by simp
qed

end
